theory Spec2Isabelle
  imports Complex_Main
begin

section \<open>Numbers and points\<close>

text \<open>
  The program is JavaScript; its numbers are IEEE doubles.  They are modelled as \<^typ>\<open>real\<close>:
  every division of the modelled functions is guarded by the source itself (a length or a
  duration tested to be positive), so no NaN or infinity arises from finite inputs, and what is
  proved below is the arithmetic the code performs, without the rounding of each operation.
\<close>

text \<open>\<^verbatim>\<open>const clamp = (value, min, max) => Math.min(Math.max(value, min), max)\<close>\<close>

definition clamp :: "real \<Rightarrow> real \<Rightarrow> real \<Rightarrow> real" where
  "clamp v mn mx = min (max v mn) mx"

text \<open>A point \<^verbatim>\<open>{x, y}\<close>; the fields are called \<open>px\<close> and \<open>py\<close> here.\<close>

record point =
  px :: real
  py :: real

section \<open>Calibration model\<close>

record calibration_model =
  scaleX :: real
  offsetX :: real
  scaleY :: real
  offsetY :: real

definition defaultCalibrationModel :: calibration_model where
  "defaultCalibrationModel = \<lparr>scaleX = 1, offsetX = 0, scaleY = 1, offsetY = 0\<rparr>"

text \<open>\<^verbatim>\<open>values.reduce((acc, value) => acc + value, 0) / (values.length || 1)\<close>\<close>

definition mean :: "real list \<Rightarrow> real" where
  "mean vs = sum_list vs / (if length vs = 0 then 1 else real (length vs))"

text \<open>
  The local \<^verbatim>\<open>variance\<close> of \<^verbatim>\<open>computeAxisMapping\<close>: the sum of the squared deviations
  from the mean, which the source does not divide by the number of values.  Its \<^verbatim>\<open>|| 0\<close>
  replaces a NaN, which no real number is.
\<close>

definition variance :: "real list \<Rightarrow> real" where
  "variance measuredValues =
     (let meanMeasured = mean measuredValues
      in (\<Sum>v\<leftarrow>measuredValues. (v - meanMeasured) * (v - meanMeasured)))"

text \<open>
  The local \<^verbatim>\<open>covariance\<close>: the reduce runs over the measured values and reads
  \<^verbatim>\<open>targetValues[index]\<close>.  The only caller builds both lists from the same pairs, so
  they have the same length; the model pairs them up with \<^const>\<open>zip\<close>.
\<close>

definition covariance :: "real list \<Rightarrow> real list \<Rightarrow> real" where
  "covariance measuredValues targetValues =
     (let meanMeasured = mean measuredValues; meanTarget = mean targetValues
      in (\<Sum>(v, t)\<leftarrow>zip measuredValues targetValues. (v - meanMeasured) * (t - meanTarget)))"

record axis_mapping =
  scale :: real
  offset :: real

definition computeAxisMapping :: "real list \<Rightarrow> real list \<Rightarrow> axis_mapping" where
  "computeAxisMapping measuredValues targetValues =
     (let meanMeasured = mean measuredValues;
          meanTarget = mean targetValues
      in if variance measuredValues < 1 / 1000000
         then \<lparr>scale = 1, offset = meanTarget - meanMeasured\<rparr>
         else (let sc = covariance measuredValues targetValues / variance measuredValues
               in \<lparr>scale = sc, offset = meanTarget - sc * meanMeasured\<rparr>))"

text \<open>A calibration pair \<^verbatim>\<open>{measured, target}\<close>.\<close>

record pair =
  measured :: point
  target :: point

definition computeLinearMapping :: "pair list \<Rightarrow> calibration_model" where
  "computeLinearMapping pairs =
     (if pairs = [] then defaultCalibrationModel
      else (let measuredX = map (\<lambda>p. px (measured p)) pairs;
                targetX = map (\<lambda>p. px (target p)) pairs;
                measuredY = map (\<lambda>p. py (measured p)) pairs;
                targetY = map (\<lambda>p. py (target p)) pairs;
                mapX = computeAxisMapping measuredX targetX;
                mapY = computeAxisMapping measuredY targetY
            in \<lparr>scaleX = scale mapX, offsetX = offset mapX,
                scaleY = scale mapY, offsetY = offset mapY\<rparr>))"

text \<open>
  \<^verbatim>\<open>applyCalibration\<close>: a missing point or a missing model gives the point back
  (\<^verbatim>\<open>point ?? null\<close>); \<open>None\<close> is \<^verbatim>\<open>null\<close>.
\<close>

definition applyCalibration :: "calibration_model option \<Rightarrow> point option \<Rightarrow> point option" where
  "applyCalibration model pt =
     (case pt of
        None \<Rightarrow> None
      | Some p \<Rightarrow>
          (case model of
             None \<Rightarrow> Some p
           | Some m \<Rightarrow>
               Some \<lparr>px = clamp (scaleX m * px p + offsetX m) 0 1,
                     py = clamp (scaleY m * py p + offsetY m) 0 1\<rparr>))"

text \<open>The five calibration targets, in the order they are shown.\<close>

definition calibrationPoints :: "point list" where
  "calibrationPoints =
     [\<lparr>px = 5/10, py = 5/10\<rparr>, \<lparr>px = 2/10, py = 2/10\<rparr>, \<lparr>px = 8/10, py = 2/10\<rparr>,
      \<lparr>px = 2/10, py = 8/10\<rparr>, \<lparr>px = 8/10, py = 8/10\<rparr>]"

section \<open>Movement classification and the blink state machine\<close>

text \<open>The three strings \<^verbatim>\<open>classifyMovement\<close> returns.\<close>

datatype category = Blink | Fixation | Saccade

definition BLINK_THRESHOLD :: real where
  "BLINK_THRESHOLD = 18 / 100"

definition FIXATION_VELOCITY_THRESHOLD :: real where
  "FIXATION_VELOCITY_THRESHOLD = 15 / 1000"

definition classifyMovement :: "real \<Rightarrow> real \<Rightarrow> real \<Rightarrow> real \<Rightarrow> category" where
  "classifyMovement velocity openness blinkThreshold fixationThreshold =
     (if openness < blinkThreshold then Blink
      else if velocity < fixationThreshold then Fixation
      else Saccade)"

text \<open>
  The part of \<^verbatim>\<open>metricsInternalRef.current\<close> that the frame callback \<^verbatim>\<open>onResults\<close>
  counts in: the blink state (\<^verbatim>\<open>'open'\<close> or \<^verbatim>\<open>'closed'\<close>), the blink counter and the
  two frame counters.
\<close>

datatype blink_state = Open | Closed

record internal =
  blinkState :: blink_state
  blinkCount :: nat
  samplesTotal :: nat
  samplesValid :: nat

definition initialInternal :: internal where
  "initialInternal = \<lparr>blinkState = Open, blinkCount = 0, samplesTotal = 0, samplesValid = 0\<rparr>"

definition blinkOpenThreshold :: real where
  "blinkOpenThreshold = 24 / 100"

text \<open>The blink update of one frame that has landmarks, from the average openness of the eyes.\<close>

definition blinkStep :: "internal \<Rightarrow> real \<Rightarrow> internal" where
  "blinkStep s averageOpenness =
     (if averageOpenness < BLINK_THRESHOLD \<and> blinkState s = Open
      then s\<lparr>blinkState := Closed, blinkCount := blinkCount s + 1\<rparr>
      else if averageOpenness > blinkOpenThreshold \<and> blinkState s = Closed
      then s\<lparr>blinkState := Open\<rparr>
      else s)"

text \<open>The blink updates of a run of frames, oldest first.\<close>

fun blinkRun :: "internal \<Rightarrow> real list \<Rightarrow> internal" where
  "blinkRun s [] = s"
| "blinkRun s (averageOpenness # rest) = blinkRun (blinkStep s averageOpenness) rest"

text \<open>
  The number of steps of a run that go from open to closed, read off the states before and
  after each step.
\<close>

fun closings :: "internal \<Rightarrow> real list \<Rightarrow> nat" where
  "closings s [] = 0"
| "closings s (averageOpenness # rest) =
     (if blinkState s = Open \<and> blinkState (blinkStep s averageOpenness) = Closed then 1 else 0)
     + closings (blinkStep s averageOpenness) rest"

section \<open>Tracking ratio\<close>

text \<open>
  \<^verbatim>\<open>Number(v.toFixed(d))\<close>: the decimal with \<open>d\<close> digits after the point that is nearest to
  \<open>v\<close>, the larger in magnitude of two equally near ones.
\<close>

definition toFixed :: "nat \<Rightarrow> real \<Rightarrow> real" where
  "toFixed d v =
     (if v < 0 then - (of_int \<lfloor>- v * 10 ^ d + 1 / 2\<rfloor> / 10 ^ d)
      else of_int \<lfloor>v * 10 ^ d + 1 / 2\<rfloor> / 10 ^ d)"

text \<open>
  Every frame with an image counts in \<^verbatim>\<open>samplesTotal\<close>; a frame in which a face was found
  (\<^verbatim>\<open>multiFaceLandmarks.length > 0\<close>) counts in \<^verbatim>\<open>samplesValid\<close> too.
\<close>

definition frameStep :: "internal \<Rightarrow> bool \<Rightarrow> internal" where
  "frameStep s faceFound =
     (let s1 = s\<lparr>samplesTotal := samplesTotal s + 1\<rparr>
      in if faceFound then s1\<lparr>samplesValid := samplesValid s1 + 1\<rparr> else s1)"

fun frameRun :: "internal \<Rightarrow> bool list \<Rightarrow> internal" where
  "frameRun s [] = s"
| "frameRun s (faceFound # rest) = frameRun (frameStep s faceFound) rest"

definition trackingRatioOf :: "nat \<Rightarrow> nat \<Rightarrow> real" where
  "trackingRatioOf validFrames totalFrames =
     (if totalFrames > 0 then toFixed 2 (real validFrames / real totalFrames * 100) else 0)"

definition trackingRatioNow :: "internal \<Rightarrow> real" where
  "trackingRatioNow s = trackingRatioOf (samplesValid s) (samplesTotal s)"

section \<open>Gaze samples and their statistics\<close>

text \<open>
  One entry of \<^verbatim>\<open>assessmentRef.current.samples\<close>.  The ISO time stamp of a sample is read
  by nothing and is left out.
\<close>

record sample =
  recordingTimeMs :: real
  categoryRight :: category
  categoryLeft :: category
  pupilDiameterRightMm :: real
  pupilDiameterLeftMm :: real
  pointOfRegardRightX :: real
  pointOfRegardRightY :: real
  pointOfRegardLeftX :: real
  pointOfRegardLeftY :: real
  trackingRatio :: real

text \<open>The result of \<^verbatim>\<open>computeStats\<close>.\<close>

record stats =
  stMean :: real
  stStd :: real
  stMin :: real
  stMax :: real
  stQ1 :: real
  stQ3 :: real
  stMedian :: real

definition zeroStats :: stats where
  "zeroStats = \<lparr>stMean = 0, stStd = 0, stMin = 0, stMax = 0, stQ1 = 0, stQ3 = 0, stMedian = 0\<rparr>"

text \<open>
  \<^verbatim>\<open>computeStats\<close>.  Its filter drops null, NaN and infinite entries; a list of reals has
  none, so every value is valid and the second emptiness test repeats the first.
\<close>

definition computeStats :: "real list \<Rightarrow> stats" where
  "computeStats vs =
     (if vs = [] then zeroStats
      else (let sorted = sort vs;
                n = length sorted;
                m = sum_list sorted / real n;
                var = (\<Sum>v\<leftarrow>sorted. (v - m) ^ 2) / real n
            in \<lparr>stMean = m,
                stStd = sqrt var,
                stMin = sorted ! 0,
                stMax = sorted ! (n - 1),
                stQ1 = sorted ! nat \<lfloor>real n * (25 / 100)\<rfloor>,
                stQ3 = sorted ! nat \<lfloor>real n * (75 / 100)\<rfloor>,
                stMedian = sorted ! nat \<lfloor>real n * (5 / 10)\<rfloor>\<rparr>))"

section \<open>Feature aggregation\<close>

text \<open>\<^verbatim>\<open>Math.hypot\<close> of two numbers.\<close>

definition hypot :: "real \<Rightarrow> real \<Rightarrow> real" where
  "hypot a b = sqrt (a ^ 2 + b ^ 2)"

text \<open>
  The first loop of \<^verbatim>\<open>computeAggregatedFeatures\<close> visits \<^verbatim>\<open>prev = samples[i - 1]\<close> and
  \<^verbatim>\<open>curr = samples[i]\<close> for \<open>i\<close> from 1, and its body runs only where the time difference
  \<open>dt\<close> (in seconds) is positive.  \<open>steps\<close> lists the pairs on which the body runs, in
  order; each array the loop pushes to is a list computed from them.
\<close>

definition dt :: "sample \<Rightarrow> sample \<Rightarrow> real" where
  "dt prev cur = (recordingTimeMs cur - recordingTimeMs prev) / 1000"

definition steps :: "sample list \<Rightarrow> (sample \<times> sample) list" where
  "steps samples = filter (\<lambda>(prev, cur). dt prev cur > 0) (zip samples (tl samples))"

definition dxRight :: "sample \<Rightarrow> sample \<Rightarrow> real" where
  "dxRight prev cur = pointOfRegardRightX cur - pointOfRegardRightX prev"

definition dyRight :: "sample \<Rightarrow> sample \<Rightarrow> real" where
  "dyRight prev cur = pointOfRegardRightY cur - pointOfRegardRightY prev"

definition dxLeft :: "sample \<Rightarrow> sample \<Rightarrow> real" where
  "dxLeft prev cur = pointOfRegardLeftX cur - pointOfRegardLeftX prev"

definition dyLeft :: "sample \<Rightarrow> sample \<Rightarrow> real" where
  "dyLeft prev cur = pointOfRegardLeftY cur - pointOfRegardLeftY prev"

definition velocityRight :: "sample \<Rightarrow> sample \<Rightarrow> real" where
  "velocityRight prev cur = hypot (dxRight prev cur) (dyRight prev cur) / dt prev cur"

definition velocityLeft :: "sample \<Rightarrow> sample \<Rightarrow> real" where
  "velocityLeft prev cur = hypot (dxLeft prev cur) (dyLeft prev cur) / dt prev cur"

definition gazeVelocitiesRight :: "sample list \<Rightarrow> real list" where
  "gazeVelocitiesRight samples = map (\<lambda>(prev, cur). velocityRight prev cur) (steps samples)"

definition gazeHorizontalRight :: "sample list \<Rightarrow> real list" where
  "gazeHorizontalRight samples =
     map (\<lambda>(prev, cur). dxRight prev cur / dt prev cur) (steps samples)"

definition gazeVerticalRight :: "sample list \<Rightarrow> real list" where
  "gazeVerticalRight samples =
     map (\<lambda>(prev, cur). dyRight prev cur / dt prev cur) (steps samples)"

definition gazeVelocitiesLeft :: "sample list \<Rightarrow> real list" where
  "gazeVelocitiesLeft samples = map (\<lambda>(prev, cur). velocityLeft prev cur) (steps samples)"

definition gazeHorizontalLeft :: "sample list \<Rightarrow> real list" where
  "gazeHorizontalLeft samples =
     map (\<lambda>(prev, cur). dxLeft prev cur / dt prev cur) (steps samples)"

definition gazeVerticalLeft :: "sample list \<Rightarrow> real list" where
  "gazeVerticalLeft samples =
     map (\<lambda>(prev, cur). dyLeft prev cur / dt prev cur) (steps samples)"

text \<open>The steps on which the saccade arrays are pushed to: either eye of \<open>curr\<close> in a saccade.\<close>

definition saccadeSteps :: "sample list \<Rightarrow> (sample \<times> sample) list" where
  "saccadeSteps samples =
     filter (\<lambda>(prev, cur). categoryRight cur = Saccade \<or> categoryLeft cur = Saccade)
       (steps samples)"

definition saccadeAmplitudes :: "sample list \<Rightarrow> real list" where
  "saccadeAmplitudes samples =
     map (\<lambda>(prev, cur).
            hypot (dxRight prev cur + dxLeft prev cur) (dyRight prev cur + dyLeft prev cur) / 2)
       (saccadeSteps samples)"

definition saccadePeakVelocities :: "sample list \<Rightarrow> real list" where
  "saccadePeakVelocities samples =
     map (\<lambda>(prev, cur). max (velocityRight prev cur) (velocityLeft prev cur))
       (saccadeSteps samples)"

text \<open>
  The steps on which a fixation duration is pushed: the test reads the right eye only,
  \<^verbatim>\<open>curr.categoryRight === 'Fixation' && prev.categoryRight === 'Fixation'\<close>.
\<close>

definition fixationSteps :: "sample list \<Rightarrow> (sample \<times> sample) list" where
  "fixationSteps samples =
     filter (\<lambda>(prev, cur). categoryRight cur = Fixation \<and> categoryRight prev = Fixation)
       (steps samples)"

definition fixDurations :: "sample list \<Rightarrow> real list" where
  "fixDurations samples = map (\<lambda>(prev, cur). dt prev cur) (fixationSteps samples)"

text \<open>
  The second loop (\<^verbatim>\<open>samples.forEach\<close>) counts, per segment, the samples in which either
  eye shows a category.  The three counter arrays are filled by the same loop; \<open>countInto\<close>
  is that loop for one category.  The loop body does not run on an empty list, where the
  segment size would be 0.
\<close>

definition segmentSize :: "sample list \<Rightarrow> nat" where
  "segmentSize samples = nat \<lceil>real (length samples) / 4\<rceil>"

definition segmentOf :: "nat \<Rightarrow> nat \<Rightarrow> nat" where
  "segmentOf segSize idx = min 3 (idx div segSize)"

definition exhibits :: "category \<Rightarrow> sample \<Rightarrow> bool" where
  "exhibits c s \<longleftrightarrow> categoryRight s = c \<or> categoryLeft s = c"

fun countInto :: "category \<Rightarrow> nat \<Rightarrow> nat \<Rightarrow> sample list \<Rightarrow> nat list \<Rightarrow> nat list" where
  "countInto c segSize idx [] counts = counts"
| "countInto c segSize idx (s # rest) counts =
     countInto c segSize (idx + 1) rest
       (let segment = segmentOf segSize idx
        in if exhibits c s then counts[segment := counts ! segment + 1] else counts)"

definition segmentCounts :: "category \<Rightarrow> sample list \<Rightarrow> nat list" where
  "segmentCounts c samples = countInto c (segmentSize samples) 0 samples [0, 0, 0, 0]"

definition blinkCounts :: "sample list \<Rightarrow> nat list" where
  "blinkCounts samples = segmentCounts Blink samples"

definition fixCounts :: "sample list \<Rightarrow> nat list" where
  "fixCounts samples = segmentCounts Fixation samples"

definition sacCounts :: "sample list \<Rightarrow> nat list" where
  "sacCounts samples = segmentCounts Saccade samples"

text \<open>The statistics objects.  No field of a sample is null, so the null filters keep all.\<close>

definition trackingStats :: "sample list \<Rightarrow> stats" where
  "trackingStats samples = computeStats (map trackingRatio samples)"

definition pupilRightStats :: "sample list \<Rightarrow> stats" where
  "pupilRightStats samples =
     computeStats (filter (\<lambda>v. v > 0) (map pupilDiameterRightMm samples))"

definition pupilLeftStats :: "sample list \<Rightarrow> stats" where
  "pupilLeftStats samples =
     computeStats (filter (\<lambda>v. v > 0) (map pupilDiameterLeftMm samples))"

definition porRightXStats :: "sample list \<Rightarrow> stats" where
  "porRightXStats samples = computeStats (map pointOfRegardRightX samples)"

definition porRightYStats :: "sample list \<Rightarrow> stats" where
  "porRightYStats samples = computeStats (map pointOfRegardRightY samples)"

definition porLeftXStats :: "sample list \<Rightarrow> stats" where
  "porLeftXStats samples = computeStats (map pointOfRegardLeftX samples)"

definition porLeftYStats :: "sample list \<Rightarrow> stats" where
  "porLeftYStats samples = computeStats (map pointOfRegardLeftY samples)"

definition recordingTimes :: "sample list \<Rightarrow> real list" where
  "recordingTimes samples = map recordingTimeMs samples"

definition recordingTimeMin :: "sample list \<Rightarrow> real" where
  "recordingTimeMin samples =
     (if length (recordingTimes samples) > 0 then Min (set (recordingTimes samples)) else 0)"

definition recordingTimeMax :: "sample list \<Rightarrow> real" where
  "recordingTimeMax samples =
     (if length (recordingTimes samples) > 0 then Max (set (recordingTimes samples)) else 0)"

definition trialDurationMs :: "sample list \<Rightarrow> real" where
  "trialDurationMs samples = recordingTimeMax samples - recordingTimeMin samples"

definition trialDurationSec :: "sample list \<Rightarrow> real" where
  "trialDurationSec samples =
     (if trialDurationMs samples > 0 then trialDurationMs samples / 1000 else 1)"

definition samplingRate :: "sample list \<Rightarrow> real" where
  "samplingRate samples =
     (if trialDurationSec samples > 0 then real (length samples) / trialDurationSec samples
      else 0)"

text \<open>\<^verbatim>\<open>counts.reduce((a, b) => a + b, 0) / trialDurationSec\<close>, guarded as in the source.\<close>

definition ratePerSecond :: "nat list \<Rightarrow> sample list \<Rightarrow> real" where
  "ratePerSecond counts samples =
     (if trialDurationSec samples > 0 then real (sum_list counts) / trialDurationSec samples
      else 0)"

text \<open>\<^verbatim>\<open>xs.length > 0 ? xs.reduce((a, b) => a + b, 0) / xs.length : 0\<close>\<close>

definition averageOrZero :: "real list \<Rightarrow> real" where
  "averageOrZero xs = (if length xs > 0 then sum_list xs / real (length xs) else 0)"

definition fixDurAvg :: "sample list \<Rightarrow> real" where
  "fixDurAvg samples = averageOrZero (fixDurations samples)"

definition sacAmpAvg :: "sample list \<Rightarrow> real" where
  "sacAmpAvg samples = averageOrZero (saccadeAmplitudes samples)"

definition sacPeakVelAvg :: "sample list \<Rightarrow> real" where
  "sacPeakVelAvg samples = averageOrZero (saccadePeakVelocities samples)"

text \<open>The gender is a string or missing (\<open>None\<close>).\<close>

definition genderEncoded :: "string option \<Rightarrow> real" where
  "genderEncoded gender =
     (if gender = Some ''M'' then 1 else (if gender = Some ''F'' then 0 else 1 / 2))"

definition gazeHorizontalRightStats :: "sample list \<Rightarrow> stats" where
  "gazeHorizontalRightStats samples = computeStats (gazeHorizontalRight samples)"

definition gazeVerticalRightStats :: "sample list \<Rightarrow> stats" where
  "gazeVerticalRightStats samples = computeStats (gazeVerticalRight samples)"

definition gazeVelocityRightStats :: "sample list \<Rightarrow> stats" where
  "gazeVelocityRightStats samples = computeStats (gazeVelocitiesRight samples)"

definition gazeHorizontalLeftStats :: "sample list \<Rightarrow> stats" where
  "gazeHorizontalLeftStats samples = computeStats (gazeHorizontalLeft samples)"

definition gazeVerticalLeftStats :: "sample list \<Rightarrow> stats" where
  "gazeVerticalLeftStats samples = computeStats (gazeVerticalLeft samples)"

definition gazeVelocityLeftStats :: "sample list \<Rightarrow> stats" where
  "gazeVelocityLeftStats samples = computeStats (gazeVelocitiesLeft samples)"

definition gazeHorizontalMean :: "sample list \<Rightarrow> real" where
  "gazeHorizontalMean samples =
     (stMean (gazeHorizontalRightStats samples) + stMean (gazeHorizontalLeftStats samples)) / 2"

definition gazeVerticalMean :: "sample list \<Rightarrow> real" where
  "gazeVerticalMean samples =
     (stMean (gazeVerticalRightStats samples) + stMean (gazeVerticalLeftStats samples)) / 2"

text \<open>
  A value of a feature slot, or of a CSV cell: a finite number, a string, or one of the
  values \<^verbatim>\<open>formatCsvCell\<close> renders as the empty string.
\<close>

datatype cell = Undefined | Null | NaN | Infinity | NegInfinity | Num real | Str string

text \<open>
  \<^verbatim>\<open>computeAggregatedFeatures(samples, age, gender)\<close>.  The object it returns is the list of
  its keys and values in the order of the object literal; \<open>None\<close> is \<^verbatim>\<open>null\<close>.  The
  parameter \<open>age\<close> is the value of \<^verbatim>\<open>parseFloat(age)\<close>, \<open>None\<close> when that is NaN.
\<close>

definition computeAggregatedFeatures ::
  "sample list \<Rightarrow> real option \<Rightarrow> string option \<Rightarrow> (string \<times> cell) list option" where
  "computeAggregatedFeatures samples age gender =
   (if samples = [] then None
    else Some [
      (''Tracking_F_1'', Num (stMean (trackingStats samples))),
      (''Tracking_F_2'', Num (stStd (trackingStats samples))),
      (''Tracking_F_3'', Num (stMin (trackingStats samples))),
      (''Tracking_F_4'', Num (stMax (trackingStats samples))),
      (''Pupil_Diam_1'', Num (stMean (pupilRightStats samples))),
      (''Pupil_Diam_2'', Num (stStd (pupilRightStats samples))),
      (''Pupil_Diam_3'', Num (stMin (pupilRightStats samples))),
      (''Pupil_Diam_4'', Num (stMax (pupilRightStats samples))),
      (''Pupil_Diam_5'', Num (stQ1 (pupilRightStats samples))),
      (''Pupil_Diam_6'', Num (stQ3 (pupilRightStats samples))),
      (''Pupil_Diam_7'', Num (stMean (pupilLeftStats samples))),
      (''Pupil_Diam_8'', Num (stStd (pupilLeftStats samples))),
      (''Pupil_Diam_9'', Num (stMin (pupilLeftStats samples))),
      (''Pupil_Diam_10'', Num (stMax (pupilLeftStats samples))),
      (''Pupil_Diam_11'', Num (stQ1 (pupilLeftStats samples))),
      (''Pupil_Diam_12'', Num (stQ3 (pupilLeftStats samples))),
      (''GazePoint_of_I_1'', Num (stMean (porRightXStats samples))),
      (''GazePoint_of_I_2'', Num (stStd (porRightXStats samples))),
      (''GazePoint_of_I_3'', Num (stMin (porRightXStats samples))),
      (''GazePoint_of_I_4'', Num (stMax (porRightXStats samples))),
      (''GazePoint_of_I_5'', Num (stMean (porRightYStats samples))),
      (''GazePoint_of_I_6'', Num (stStd (porRightYStats samples))),
      (''GazePoint_of_I_7'', Num (stMin (porRightYStats samples))),
      (''GazePoint_of_I_8'', Num (stMax (porRightYStats samples))),
      (''GazePoint_of_I_9'', Num (stMean (porLeftXStats samples))),
      (''GazePoint_of_I_10'', Num (stStd (porLeftXStats samples))),
      (''GazePoint_of_I_11'', Num (stMin (porLeftXStats samples))),
      (''GazePoint_of_I_12'', Num (stMax (porLeftXStats samples))),
      (''Recording_1'', Num (real (length (recordingTimes samples)))),
      (''Recording_2'', Num (recordingTimeMin samples)),
      (''Recording_3'', Num (recordingTimeMax samples)),
      (''gaze_hori_1'', Num (stMean (gazeHorizontalRightStats samples))),
      (''gaze_hori_2'', Num (stStd (gazeHorizontalRightStats samples))),
      (''gaze_hori_3'', Num (stMean (gazeHorizontalLeftStats samples))),
      (''gaze_hori_4'', Num (stStd (gazeHorizontalLeftStats samples))),
      (''gaze_vert_1'', Num (stMean (gazeVerticalRightStats samples))),
      (''gaze_vert_2'', Num (stStd (gazeVerticalRightStats samples))),
      (''gaze_vert_3'', Num (stMean (gazeVerticalLeftStats samples))),
      (''gaze_vert_4'', Num (stStd (gazeVerticalLeftStats samples))),
      (''gaze_velo_1'', Num (stMean (gazeVelocityRightStats samples))),
      (''gaze_velo_2'', Num (stMax (gazeVelocityRightStats samples))),
      (''gaze_velo_3'', Num (stMean (gazeVelocityLeftStats samples))),
      (''gaze_velo_4'', Num (stMax (gazeVelocityLeftStats samples))),
      (''blink_count_1'', Num (real (blinkCounts samples ! 0))),
      (''blink_count_2'', Num (real (blinkCounts samples ! 1))),
      (''blink_count_3'', Num (real (blinkCounts samples ! 2))),
      (''blink_count_4'', Num (real (blinkCounts samples ! 3))),
      (''fix_count_1'', Num (real (fixCounts samples ! 0))),
      (''fix_count_2'', Num (real (fixCounts samples ! 1))),
      (''fix_count_3'', Num (real (fixCounts samples ! 2))),
      (''fix_count_4'', Num (real (fixCounts samples ! 3))),
      (''sac_count_1'', Num (real (sacCounts samples ! 0))),
      (''sac_count_2'', Num (real (sacCounts samples ! 1))),
      (''sac_count_3'', Num (real (sacCounts samples ! 2))),
      (''sac_count_4'', Num (real (sacCounts samples ! 3))),
      (''Source_File'', Str ''web-app''),
      (''level_2'', Str ''GazePoint_of_I''),
      (''trial_dur_1'', Num (trialDurationMs samples)),
      (''trial_dur_2'', Num (trialDurationSec samples)),
      (''sampling_rate_1'', Num (samplingRate samples)),
      (''blink_rate_1'', Num (ratePerSecond (blinkCounts samples) samples)),
      (''fixation_rate_1'', Num (ratePerSecond (fixCounts samples) samples)),
      (''saccade_rate_1'', Num (ratePerSecond (sacCounts samples) samples)),
      (''fix_dur_avg_1'', Num (fixDurAvg samples)),
      (''sac_amp_avg_1'', Num (sacAmpAvg samples)),
      (''sac_peak_vel_avg_1'', Num (sacPeakVelAvg samples)),
      (''right_eye_c_1'', Num (stMean (porRightXStats samples))),
      (''right_eye_c_2'', Num (stStd (porRightXStats samples))),
      (''right_eye_c_3'', Num (stMax (porRightXStats samples) - stMin (porRightXStats samples))),
      (''left_eye_c_1'', Num (stMean (porLeftXStats samples))),
      (''left_eye_c_2'', Num (stStd (porLeftXStats samples))),
      (''left_eye_c_3'', Num (stMax (porLeftXStats samples) - stMin (porLeftXStats samples))),
      (''avg_eye_c_1'',
         Num ((stMean (porRightXStats samples) + stMean (porLeftXStats samples)) / 2)),
      (''avg_eye_c_2'',
         Num ((stStd (porRightXStats samples) + stStd (porLeftXStats samples)) / 2)),
      (''avg_eye_c_3'',
         Num (((stMax (porRightXStats samples) - stMin (porRightXStats samples))
               + (stMax (porLeftXStats samples) - stMin (porLeftXStats samples))) / 2)),
      (''pupil_diam_avg_1'',
         Num ((stMean (pupilRightStats samples) + stMean (pupilLeftStats samples)) / 2)),
      (''gaze_hori_avg_1'', Num (gazeHorizontalMean samples)),
      (''gaze_vert_avg_1'', Num (gazeVerticalMean samples)),
      (''Participant'', Num 0),
      (''Gender'',
         Str (case gender of None \<Rightarrow> ''Unknown''
              | Some g \<Rightarrow> if g = [] then ''Unknown'' else g)),
      (''Age'', Num (case age of None \<Rightarrow> 0 | Some a \<Rightarrow> a)),
      (''Class'', Str ''Unknown''),
      (''CARS_Score_is_ASD'', Num 0),
      (''Gender_encoded'', Num (genderEncoded gender))])"

section \<open>Serializer\<close>

definition AGGREGATED_CSV_HEADERS :: "string list" where
  "AGGREGATED_CSV_HEADERS =
    [''Tracking_F_1'', ''Tracking_F_2'', ''Tracking_F_3'', ''Tracking_F_4'',
     ''Pupil_Diam_1'', ''Pupil_Diam_2'', ''Pupil_Diam_3'', ''Pupil_Diam_4'', ''Pupil_Diam_5'',
     ''Pupil_Diam_6'',
     ''Pupil_Diam_7'', ''Pupil_Diam_8'', ''Pupil_Diam_9'', ''Pupil_Diam_10'', ''Pupil_Diam_11'',
     ''Pupil_Diam_12'',
     ''GazePoint_of_I_1'', ''GazePoint_of_I_2'', ''GazePoint_of_I_3'', ''GazePoint_of_I_4'',
     ''GazePoint_of_I_5'', ''GazePoint_of_I_6'',
     ''GazePoint_of_I_7'', ''GazePoint_of_I_8'', ''GazePoint_of_I_9'', ''GazePoint_of_I_10'',
     ''GazePoint_of_I_11'', ''GazePoint_of_I_12'',
     ''Recording_1'', ''Recording_2'', ''Recording_3'',
     ''gaze_hori_1'', ''gaze_hori_2'', ''gaze_hori_3'', ''gaze_hori_4'',
     ''gaze_vert_1'', ''gaze_vert_2'', ''gaze_vert_3'', ''gaze_vert_4'',
     ''gaze_velo_1'', ''gaze_velo_2'', ''gaze_velo_3'', ''gaze_velo_4'',
     ''blink_count_1'', ''blink_count_2'', ''blink_count_3'', ''blink_count_4'',
     ''fix_count_1'', ''fix_count_2'', ''fix_count_3'', ''fix_count_4'',
     ''sac_count_1'', ''sac_count_2'', ''sac_count_3'', ''sac_count_4'',
     ''Source_File'', ''level_2'',
     ''trial_dur_1'', ''trial_dur_2'',
     ''sampling_rate_1'',
     ''blink_rate_1'', ''fixation_rate_1'', ''saccade_rate_1'',
     ''fix_dur_avg_1'', ''sac_amp_avg_1'', ''sac_peak_vel_avg_1'',
     ''right_eye_c_1'', ''right_eye_c_2'', ''right_eye_c_3'',
     ''left_eye_c_1'', ''left_eye_c_2'', ''left_eye_c_3'',
     ''avg_eye_c_1'', ''avg_eye_c_2'', ''avg_eye_c_3'',
     ''pupil_diam_avg_1'', ''gaze_hori_avg_1'', ''gaze_vert_avg_1'',
     ''Participant'', ''Gender'', ''Age'', ''Class'', ''CARS_Score_is_ASD'', ''Gender_encoded'']"

text \<open>\<^verbatim>\<open>aggregatedFeatures[header]\<close>: a key the object does not have reads as undefined.\<close>

definition featureOf :: "(string \<times> cell) list \<Rightarrow> string \<Rightarrow> cell" where
  "featureOf features header =
     (case map_of features header of None \<Rightarrow> Undefined | Some v \<Rightarrow> v)"

text \<open>Decimal digits of a natural number, as \<^verbatim>\<open>toString\<close> prints an integer.\<close>

definition digitChar :: "nat \<Rightarrow> char" where
  "digitChar n = ''0123456789'' ! n"

fun natToString :: "nat \<Rightarrow> string" where
  "natToString n =
     (if n < 10 then [digitChar n] else natToString (n div 10) @ [digitChar (n mod 10)])"

declare natToString.simps [simp del]

text \<open>
  The digits after the decimal point of a number of \<open>f\<close> thousandths, \<open>0 < f < 1000\<close>:
  three digits, without the zeros at the end.
\<close>

definition fractionDigits :: "nat \<Rightarrow> string" where
  "fractionDigits f =
     rev (dropWhile (\<lambda>c. c = CHR ''0'')
            (rev [digitChar (f div 100), digitChar (f div 10 mod 10), digitChar (f mod 10)]))"

text \<open>
  \<^verbatim>\<open>toString()\<close> of a number that is a whole number of thousandths, which the two numbers
  \<^verbatim>\<open>formatCsvCell\<close> prints are: an integer, or the result of \<^verbatim>\<open>Number(value.toFixed(3))\<close>.
  Minus zero prints as \<^verbatim>\<open>0\<close>.  From \<open>10\<^sup>2\<^sup>1\<close> on JavaScript prints a number in exponent
  notation; the model prints the numbers below, and the statements about number cells are
  made for them.
\<close>

definition numberToString :: "real \<Rightarrow> string" where
  "numberToString r =
     (let n = nat \<lfloor>\<bar>r\<bar> * 1000\<rfloor>
      in (if r < 0 \<and> n \<noteq> 0 then ''-'' else '''')
         @ natToString (n div 1000)
         @ (if n mod 1000 = 0 then '''' else ''.'' @ fractionDigits (n mod 1000)))"

text \<open>\<^verbatim>\<open>Number.isInteger\<close> of a finite number.\<close>

definition isInteger :: "real \<Rightarrow> bool" where
  "isInteger v \<longleftrightarrow> of_int \<lfloor>v\<rfloor> = v"

text \<open>\<^verbatim>\<open>str.replace(/"/g, '""')\<close>\<close>

fun doubleQuotes :: "string \<Rightarrow> string" where
  "doubleQuotes [] = []"
| "doubleQuotes (c # cs) =
     (if c = CHR 0x22 then [CHR 0x22, CHR 0x22] else [c]) @ doubleQuotes cs"

definition formatCsvCell :: "cell \<Rightarrow> string" where
  "formatCsvCell v =
     (case v of
        Null \<Rightarrow> ''''
      | Undefined \<Rightarrow> ''''
      | NaN \<Rightarrow> ''''
      | Infinity \<Rightarrow> ''''
      | NegInfinity \<Rightarrow> ''''
      | Num r \<Rightarrow> if isInteger r then numberToString r else numberToString (toFixed 3 r)
      | Str s \<Rightarrow> [CHR 0x22] @ doubleQuotes s @ [CHR 0x22])"

text \<open>\<^verbatim>\<open>Array.prototype.join\<close>\<close>

fun join :: "string \<Rightarrow> string list \<Rightarrow> string" where
  "join sep [] = []"
| "join sep [s] = s"
| "join sep (s # t # rest) = s @ sep @ join sep (t # rest)"

section \<open>Finishing a capture session\<close>

datatype assessment_status = Idle | Running | Complete

record assessment =
  status :: assessment_status
  sessionSamples :: "sample list"

text \<open>
  What \<^verbatim>\<open>finalizeAssessment\<close> does besides the status change: nothing when no session is
  running, the error message it sets, or the text of the CSV file it offers for download.
\<close>

datatype outcome = Nothing | Error string | Download string

text \<open>The cells of the data row, one per header.\<close>

definition csvRow :: "(string \<times> cell) list \<Rightarrow> string list" where
  "csvRow features = map (\<lambda>header. formatCsvCell (featureOf features header)) AGGREGATED_CSV_HEADERS"

definition finalizeAssessment ::
  "assessment \<Rightarrow> real option \<Rightarrow> string option \<Rightarrow> assessment \<times> outcome" where
  "finalizeAssessment a age gender =
     (if status a \<noteq> Running then (a, Nothing)
      else (let a' = a\<lparr>status := Complete\<rparr>
            in case computeAggregatedFeatures (sessionSamples a') age gender of
                 None \<Rightarrow> (a', Error ''Unable to compute features from samples.'')
               | Some features \<Rightarrow>
                   (a', Download (join [CHR 0x0A]
                          [join '','' AGGREGATED_CSV_HEADERS, join '','' (csvRow features)]))))"

section \<open>The schema of the spec\<close>

text \<open>
  The columns as section 6 of the specification lists them: \<open>numbered p n\<close> is
  \<open>p1 \<dots> pn\<close>.  The six metadata columns are the ones the specification excludes from the
  feature vector.
\<close>

definition numbered :: "string \<Rightarrow> nat \<Rightarrow> string list" where
  "numbered prefix n = map (\<lambda>i. prefix @ natToString i) [1..<Suc n]"

definition spec_schema :: "string list" where
  "spec_schema =
     numbered ''Tracking_F_'' 4 @ numbered ''Pupil_Diam_'' 12 @ numbered ''GazePoint_of_I_'' 12
     @ numbered ''Recording_'' 3 @ numbered ''gaze_hori_'' 4 @ numbered ''gaze_vert_'' 4
     @ numbered ''gaze_velo_'' 4 @ numbered ''blink_count_'' 4 @ numbered ''fix_count_'' 4
     @ numbered ''sac_count_'' 4 @ [''Source_File'', ''level_2''] @ numbered ''trial_dur_'' 2
     @ [''sampling_rate_1'', ''blink_rate_1'', ''fixation_rate_1'', ''saccade_rate_1'',
        ''fix_dur_avg_1'', ''sac_amp_avg_1'', ''sac_peak_vel_avg_1'']
     @ numbered ''right_eye_c_'' 3 @ numbered ''left_eye_c_'' 3 @ numbered ''avg_eye_c_'' 3
     @ [''pupil_diam_avg_1'', ''gaze_hori_avg_1'', ''gaze_vert_avg_1'', ''Participant'',
        ''Gender'', ''Age'', ''Class'', ''CARS_Score_is_ASD'', ''Gender_encoded'']"

definition spec_metadata_columns :: "string list" where
  "spec_metadata_columns =
     [''Source_File'', ''level_2'', ''Participant'', ''Gender'', ''Class'', ''CARS_Score_is_ASD'']"

definition numericColumns :: "string list" where
  "numericColumns = filter (\<lambda>h. h \<notin> set spec_metadata_columns) AGGREGATED_CSV_HEADERS"

fun isNum :: "cell \<Rightarrow> bool" where
  "isNum (Num r) = True"
| "isNum _ = False"

fun isStr :: "cell \<Rightarrow> bool" where
  "isStr (Str s) = True"
| "isStr _ = False"

text \<open>Two samples for the examples: 100 ms apart, the right eye in a saccade, the left fixating.\<close>

definition sampleA :: sample where
  "sampleA = \<lparr>recordingTimeMs = 0, categoryRight = Saccade, categoryLeft = Fixation,
     pupilDiameterRightMm = 4, pupilDiameterLeftMm = 4,
     pointOfRegardRightX = 320, pointOfRegardRightY = 240,
     pointOfRegardLeftX = 320, pointOfRegardLeftY = 240, trackingRatio = 100\<rparr>"

definition sampleB :: sample where
  "sampleB = sampleA\<lparr>recordingTimeMs := 100\<rparr>"

text \<open>Five samples, the fourth alone without a fixating eye.\<close>

definition mixedWindow :: "sample list" where
  "mixedWindow = [sampleA, sampleB, sampleA, sampleA\<lparr>categoryLeft := Blink\<rparr>, sampleB]"

text \<open>
  The second loop, read by index: the positions of a window at which either eye shows the
  category \<open>c\<close> and which fall into segment \<open>j\<close> when the window is cut into consecutive
  pieces of \<open>segmentSize\<close> positions.
\<close>

definition segmentHits :: "category \<Rightarrow> nat \<Rightarrow> sample list \<Rightarrow> nat list" where
  "segmentHits c j samples =
     filter (\<lambda>i. i div segmentSize samples = j \<and> exhibits c (samples ! i)) [0..<length samples]"

text \<open>
  The first loop, read by index: the positions \<open>i\<close> from 1 at which the loop pushes a
  fixation duration.
\<close>

definition fixationIndices :: "sample list \<Rightarrow> nat list" where
  "fixationIndices samples =
     filter (\<lambda>i. dt (samples ! (i - 1)) (samples ! i) > 0
                \<and> categoryRight (samples ! i) = Fixation
                \<and> categoryRight (samples ! (i - 1)) = Fixation)
       [1..<length samples]"

text \<open>
  The average fixation duration in the words of claim C9: the mean interval over all
  consecutive pairs of samples that both count as fixations, a sample counting as one when
  either eye shows it.
\<close>

definition spec_fixDurAvg :: "sample list \<Rightarrow> real" where
  "spec_fixDurAvg samples =
     averageOrZero
       (map (\<lambda>(prev, cur). dt prev cur)
          (filter (\<lambda>(prev, cur). exhibits Fixation prev \<and> exhibits Fixation cur)
             (zip samples (tl samples))))"

text \<open>
  Variance and covariance as the specification uses the words: the mean of the squared
  deviations from the mean, and the mean of the products of the deviations.
\<close>

definition spec_variance :: "real list \<Rightarrow> real" where
  "spec_variance vs = (\<Sum>v\<leftarrow>vs. (v - mean vs) ^ 2) / real (length vs)"

definition spec_covariance :: "real list \<Rightarrow> real list \<Rightarrow> real" where
  "spec_covariance ms ts =
     (\<Sum>(m, t)\<leftarrow>zip ms ts. (m - mean ms) * (t - mean ts)) / real (length ms)"

text \<open>
  Calibration recordings for the examples, each against the five targets: one whose fifth
  point was measured at x = 0.5 instead of 0.8; one measured at half the target's x and at
  half the target's y plus 0.1; one measured exactly at the targets.
\<close>

definition skewedPairs :: "pair list" where
  "skewedPairs =
     map (\<lambda>(m, t). \<lparr>measured = m, target = t\<rparr>)
       (zip [\<lparr>px = 5/10, py = 5/10\<rparr>, \<lparr>px = 2/10, py = 2/10\<rparr>, \<lparr>px = 8/10, py = 2/10\<rparr>,
             \<lparr>px = 2/10, py = 8/10\<rparr>, \<lparr>px = 5/10, py = 8/10\<rparr>]
          calibrationPoints)"

definition halvedPairs :: "pair list" where
  "halvedPairs =
     map (\<lambda>t. \<lparr>measured = \<lparr>px = px t / 2, py = py t / 2 + 1 / 10\<rparr>, target = t\<rparr>)
       calibrationPoints"

definition identityPairs :: "pair list" where
  "identityPairs = map (\<lambda>t. \<lparr>measured = t, target = t\<rparr>) calibrationPoints"



section \<open>Lemmas on the feature object\<close>

lemma features_Some:
  "samples \<noteq> [] \<Longrightarrow> \<exists>f. computeAggregatedFeatures samples age gender = Some f"
  by (simp add: computeAggregatedFeatures_def)

lemma features_keys:
  "computeAggregatedFeatures samples age gender = Some f \<Longrightarrow> map fst f = AGGREGATED_CSV_HEADERS"
  by (auto simp add: computeAggregatedFeatures_def AGGREGATED_CSV_HEADERS_def split: if_splits)

lemma featureOf_member:
  assumes "h \<in> set (map fst f)"
  shows "(h, featureOf f h) \<in> set f"
proof -
  from assms have "map_of f h \<noteq> None"
    by (simp add: map_of_eq_None_iff)
  then obtain v where v: "map_of f h = Some v"
    by blast
  then have "(h, v) \<in> set f"
    by (rule map_of_SomeD)
  with v show ?thesis
    by (simp add: featureOf_def)
qed

lemma features_entries:
  "computeAggregatedFeatures samples age gender = Some f \<Longrightarrow>
     list_all (\<lambda>(k, v). if k \<in> set spec_metadata_columns then isNum v \<or> isStr v else isNum v) f"
  by (auto simp add: computeAggregatedFeatures_def spec_metadata_columns_def split: if_splits)

lemma headers_length: "length AGGREGATED_CSV_HEADERS = 84"
  by (simp add: AGGREGATED_CSV_HEADERS_def)

lemma numericColumns_length: "length numericColumns = 78"
  by code_simp

lemma features_numeric:
  assumes "computeAggregatedFeatures samples age gender = Some f" and "h \<in> set numericColumns"
  shows "isNum (featureOf f h)"
proof -
  from assms(2) have h: "h \<in> set AGGREGATED_CSV_HEADERS" "h \<notin> set spec_metadata_columns"
    by (simp_all add: numericColumns_def)
  from h(1) features_keys [OF assms(1)] have "(h, featureOf f h) \<in> set f"
    by (simp add: featureOf_member)
  with features_entries [OF assms(1)] h(2) show ?thesis
    by (auto simp add: list_all_iff)
qed

lemma features_defined:
  assumes "computeAggregatedFeatures samples age gender = Some f"
    and "h \<in> set AGGREGATED_CSV_HEADERS"
  shows "isNum (featureOf f h) \<or> isStr (featureOf f h)"
proof -
  from assms(2) features_keys [OF assms(1)] have "(h, featureOf f h) \<in> set f"
    by (simp add: featureOf_member)
  with features_entries [OF assms(1)] show ?thesis
    by (auto simp add: list_all_iff split: if_splits)
qed

lemma csvRow_length: "length (csvRow f) = 84"
  by (simp add: csvRow_def headers_length)

section \<open>C1: the columns of the serialized record\<close>

text \<open>
  C1, as the specification states it: the record has the columns of the schema in the order of
  the schema, 81 in all, 75 of them left when the six metadata columns are taken out.  The
  header list of the code is the schema, column by column, but the schema has 84 columns and
  78 of them are not metadata: the two counts of the claim fail.
\<close>

theorem C1_column_counts_counterexample:
  "length AGGREGATED_CSV_HEADERS \<noteq> 81 \<and> length numericColumns \<noteq> 75"
  by (simp add: headers_length numericColumns_length)

text \<open>
  C1, amended: the header list is the schema of the specification in its order; it has 84
  columns, 78 of which are not among the six metadata columns; and for every non-empty
  window the feature object has exactly these keys in this order, a number in each of the 78
  columns, and the file offered for download is the header line and one row of 84 cells.
\<close>

theorem C1_columns:
  "AGGREGATED_CSV_HEADERS = spec_schema
   \<and> length AGGREGATED_CSV_HEADERS = 84
   \<and> length numericColumns = 78
   \<and> (samples \<noteq> [] \<longrightarrow>
        (\<exists>f. computeAggregatedFeatures samples age gender = Some f
           \<and> map fst f = AGGREGATED_CSV_HEADERS
           \<and> (\<forall>h \<in> set numericColumns. isNum (featureOf f h))
           \<and> length (csvRow f) = 84
           \<and> finalizeAssessment \<lparr>status = Running, sessionSamples = samples\<rparr> age gender =
               (\<lparr>status = Complete, sessionSamples = samples\<rparr>,
                Download (join [CHR 0x0A]
                  [join '','' AGGREGATED_CSV_HEADERS, join '','' (csvRow f)]))))"
proof (intro conjI impI)
  show "AGGREGATED_CSV_HEADERS = spec_schema"
    by code_simp
  show "length AGGREGATED_CSV_HEADERS = 84"
    by (rule headers_length)
  show "length numericColumns = 78"
    by (rule numericColumns_length)
next
  assume "samples \<noteq> []"
  then obtain f where f: "computeAggregatedFeatures samples age gender = Some f"
    using features_Some by blast
  have "finalizeAssessment \<lparr>status = Running, sessionSamples = samples\<rparr> age gender =
      (\<lparr>status = Complete, sessionSamples = samples\<rparr>,
       Download (join [CHR 0x0A] [join '','' AGGREGATED_CSV_HEADERS, join '','' (csvRow f)]))"
    using f by (simp add: finalizeAssessment_def)
  with f features_keys [OF f] features_numeric [OF f] csvRow_length [of f]
  show "\<exists>f. computeAggregatedFeatures samples age gender = Some f
           \<and> map fst f = AGGREGATED_CSV_HEADERS
           \<and> (\<forall>h \<in> set numericColumns. isNum (featureOf f h))
           \<and> length (csvRow f) = 84
           \<and> finalizeAssessment \<lparr>status = Running, sessionSamples = samples\<rparr> age gender =
               (\<lparr>status = Complete, sessionSamples = samples\<rparr>,
                Download (join [CHR 0x0A]
                  [join '','' AGGREGATED_CSV_HEADERS, join '','' (csvRow f)]))"
    by blast
qed

theorem C1_columns_witness:
  "[sampleA] \<noteq> []
   \<and> (\<exists>f. computeAggregatedFeatures [sampleA] (Some 5) (Some ''M'') = Some f
         \<and> map fst f = AGGREGATED_CSV_HEADERS
         \<and> (\<forall>h \<in> set numericColumns. isNum (featureOf f h))
         \<and> length (csvRow f) = 84)"
  using C1_columns [of "[sampleA]" "Some 5" "Some ''M''"] by blast

section \<open>C2: the empty window\<close>

text \<open>
  C2, as the specification states it: for an empty window the aggregator returns a full
  vector of defaults and the record still has all its columns.  The code returns
  \<^verbatim>\<open>null\<close> for an empty window, and finishing the session then sets an error message and
  writes no record.
\<close>

theorem C2_empty_window_counterexample:
  "computeAggregatedFeatures [] (Some 5) (Some ''M'') = None
   \<and> snd (finalizeAssessment \<lparr>status = Running, sessionSamples = []\<rparr> (Some 5) (Some ''M''))
       = Error ''Unable to compute features from samples.''"
  by (simp add: computeAggregatedFeatures_def finalizeAssessment_def)

text \<open>
  C2, amended: for an empty window the aggregator returns no feature vector, and finishing
  the session completes it with the error message "Unable to compute features from samples."
  and no record; for every non-empty window the vector has every named slot, each a number
  or a string.
\<close>

theorem C2_empty_window:
  "computeAggregatedFeatures [] age gender = None
   \<and> finalizeAssessment \<lparr>status = Running, sessionSamples = []\<rparr> age gender =
       (\<lparr>status = Complete, sessionSamples = []\<rparr>,
        Error ''Unable to compute features from samples.'')
   \<and> (samples \<noteq> [] \<longrightarrow>
        (\<exists>f. computeAggregatedFeatures samples age gender = Some f
           \<and> map fst f = AGGREGATED_CSV_HEADERS
           \<and> (\<forall>h \<in> set AGGREGATED_CSV_HEADERS. isNum (featureOf f h) \<or> isStr (featureOf f h))))"
proof (intro conjI impI)
  show none: "computeAggregatedFeatures [] age gender = None"
    by (simp add: computeAggregatedFeatures_def)
  show "finalizeAssessment \<lparr>status = Running, sessionSamples = []\<rparr> age gender =
       (\<lparr>status = Complete, sessionSamples = []\<rparr>,
        Error ''Unable to compute features from samples.'')"
    by (simp add: finalizeAssessment_def none)
next
  assume "samples \<noteq> []"
  then obtain f where f: "computeAggregatedFeatures samples age gender = Some f"
    using features_Some by blast
  with features_keys [OF f] features_defined [OF f]
  show "\<exists>f. computeAggregatedFeatures samples age gender = Some f
           \<and> map fst f = AGGREGATED_CSV_HEADERS
           \<and> (\<forall>h \<in> set AGGREGATED_CSV_HEADERS. isNum (featureOf f h) \<or> isStr (featureOf f h))"
    by blast
qed

theorem C2_empty_window_witness:
  "[sampleA, sampleB] \<noteq> []
   \<and> (\<exists>f. computeAggregatedFeatures [sampleA, sampleB] None None = Some f
         \<and> map fst f = AGGREGATED_CSV_HEADERS
         \<and> (\<forall>h \<in> set AGGREGATED_CSV_HEADERS. isNum (featureOf f h) \<or> isStr (featureOf f h)))"
  using C2_empty_window [of None None "[sampleA, sampleB]"] by blast

section \<open>C10: the encoded gender\<close>

text \<open>
  C10: the slot \<open>Gender_encoded\<close> of the feature vector is 1 for the gender \<open>M\<close>, 0 for
  \<open>F\<close> and 0.5 for anything else, a missing or empty gender included.
\<close>

theorem C10_gender_encoded:
  "samples \<noteq> [] \<Longrightarrow>
     \<exists>f. computeAggregatedFeatures samples age gender = Some f
        \<and> featureOf f ''Gender_encoded'' =
            Num (if gender = Some ''M'' then 1 else if gender = Some ''F'' then 0 else 1 / 2)"
  by (simp add: computeAggregatedFeatures_def featureOf_def genderEncoded_def)

theorem C10_gender_encoded_witness:
  "[sampleA] \<noteq> []
   \<and> (\<exists>f. computeAggregatedFeatures [sampleA] (Some 7) (Some ''M'') = Some f
          \<and> featureOf f ''Gender_encoded'' = Num 1)
   \<and> (\<exists>f. computeAggregatedFeatures [sampleA] (Some 7) (Some ''F'') = Some f
          \<and> featureOf f ''Gender_encoded'' = Num 0)
   \<and> (\<exists>f. computeAggregatedFeatures [sampleA] (Some 7) (Some '''') = Some f
          \<and> featureOf f ''Gender_encoded'' = Num (1 / 2))
   \<and> (\<exists>f. computeAggregatedFeatures [sampleA] (Some 7) None = Some f
          \<and> featureOf f ''Gender_encoded'' = Num (1 / 2))"
  using C10_gender_encoded [of "[sampleA]" "Some 7" "Some ''M''"]
    C10_gender_encoded [of "[sampleA]" "Some 7" "Some ''F''"]
    C10_gender_encoded [of "[sampleA]" "Some 7" "Some ''''"]
    C10_gender_encoded [of "[sampleA]" "Some 7" None]
  by simp

section \<open>Lemmas on the blink state machine and the frame counters\<close>

lemma blinkStep_count:
  "blinkCount (blinkStep s a) =
     blinkCount s + (if blinkState s = Open \<and> blinkState (blinkStep s a) = Closed then 1 else 0)"
  by (cases "blinkState s") (simp_all add: blinkStep_def)

lemma blinkRun_count: "blinkCount (blinkRun s as) = blinkCount s + closings s as"
proof (induction as arbitrary: s)
  case Nil
  show ?case by simp
next
  case (Cons a as)
  have "blinkCount (blinkRun s (a # as)) = blinkCount (blinkStep s a) + closings (blinkStep s a) as"
    using Cons.IH [of "blinkStep s a"] by simp
  also have "\<dots> = blinkCount s + closings s (a # as)"
    by (simp add: blinkStep_count)
  finally show ?case .
qed

lemma toFixed_nonneg: "0 \<le> v \<Longrightarrow> 0 \<le> toFixed d v"
  by (simp add: toFixed_def)

lemma toFixed_mono:
  assumes "0 \<le> a" and "a \<le> b"
  shows "toFixed d a \<le> toFixed d b"
proof -
  have "a * 10 ^ d + 1 / 2 \<le> b * 10 ^ d + 1 / 2"
    using assms(2) by (simp add: mult_right_mono)
  then have "\<lfloor>a * 10 ^ d + 1 / 2\<rfloor> \<le> \<lfloor>b * 10 ^ d + 1 / 2\<rfloor>"
    by (rule floor_mono)
  then have "(of_int \<lfloor>a * 10 ^ d + 1 / 2\<rfloor> :: real) / 10 ^ d \<le> of_int \<lfloor>b * 10 ^ d + 1 / 2\<rfloor> / 10 ^ d"
    by (simp add: divide_right_mono)
  with assms show ?thesis
    by (simp add: toFixed_def)
qed

lemma toFixed_2_100: "toFixed 2 100 = 100"
  by (simp add: toFixed_def)

lemma trackingRatioOf_mono:
  assumes "v1 \<le> v2"
  shows "trackingRatioOf v1 t \<le> trackingRatioOf v2 t"
proof (cases "t > 0")
  case True
  have "real v1 / real t * 100 \<le> real v2 / real t * 100"
    using assms by (simp add: divide_right_mono)
  moreover have "0 \<le> real v1 / real t * 100"
    by simp
  ultimately show ?thesis
    using True by (simp add: trackingRatioOf_def toFixed_mono)
next
  case False
  then show ?thesis
    by (simp add: trackingRatioOf_def)
qed

lemma trackingRatioOf_bounds:
  assumes "v \<le> t"
  shows "0 \<le> trackingRatioOf v t \<and> trackingRatioOf v t \<le> 100"
proof (cases "t > 0")
  case True
  have lo: "0 \<le> real v / real t * 100"
    by simp
  have "real v / real t \<le> 1"
    using assms True by simp
  from mult_right_mono [OF this, of 100] have hi: "real v / real t * 100 \<le> 100"
    by simp
  have "toFixed 2 (real v / real t * 100) \<le> toFixed 2 100"
    using lo hi by (rule toFixed_mono)
  with lo True show ?thesis
    by (simp add: trackingRatioOf_def toFixed_nonneg toFixed_2_100)
next
  case False
  then show ?thesis
    by (simp add: trackingRatioOf_def)
qed

lemma frameStep_valid_le_total:
  "samplesValid s \<le> samplesTotal s \<Longrightarrow> samplesValid (frameStep s b) \<le> samplesTotal (frameStep s b)"
  by (simp add: frameStep_def Let_def)

lemma frameRun_valid_le_total:
  "samplesValid s \<le> samplesTotal s \<Longrightarrow> samplesValid (frameRun s bs) \<le> samplesTotal (frameRun s bs)"
  by (induction bs arbitrary: s) (simp_all add: frameStep_valid_le_total)

section \<open>C5: the blink state machine\<close>

text \<open>
  C5: a step goes from open to closed exactly when the average openness is below 0.18 in
  the open state, and from closed to open exactly when it is above 0.24 in the closed state;
  the blink counter goes up by one on a step from open to closed and stays on every other
  step, so that over a run it goes up by the number of such steps; on ten frames that
  alternate 0.05 and 0.9, from the open state, that is five.
\<close>

theorem C5_blink_state_machine:
  "(blinkState s = Open \<longrightarrow> (blinkState (blinkStep s a) = Closed \<longleftrightarrow> a < 18 / 100))
   \<and> (blinkState s = Closed \<longrightarrow> (blinkState (blinkStep s a) = Open \<longleftrightarrow> a > 24 / 100))
   \<and> blinkCount (blinkStep s a) =
       blinkCount s + (if blinkState s = Open \<and> blinkState (blinkStep s a) = Closed then 1 else 0)
   \<and> blinkCount (blinkRun s as) = blinkCount s + closings s as
   \<and> blinkCount (blinkRun initialInternal
        [5 / 100, 9 / 10, 5 / 100, 9 / 10, 5 / 100, 9 / 10, 5 / 100, 9 / 10, 5 / 100, 9 / 10]) = 5"
proof (intro conjI impI)
  assume "blinkState s = Open"
  then show "blinkState (blinkStep s a) = Closed \<longleftrightarrow> a < 18 / 100"
    by (simp add: blinkStep_def BLINK_THRESHOLD_def)
next
  assume "blinkState s = Closed"
  then show "blinkState (blinkStep s a) = Open \<longleftrightarrow> a > 24 / 100"
    by (simp add: blinkStep_def blinkOpenThreshold_def)
next
  show "blinkCount (blinkStep s a) =
       blinkCount s + (if blinkState s = Open \<and> blinkState (blinkStep s a) = Closed then 1 else 0)"
    by (rule blinkStep_count)
  show "blinkCount (blinkRun s as) = blinkCount s + closings s as"
    by (rule blinkRun_count)
  show "blinkCount (blinkRun initialInternal
        [5 / 100, 9 / 10, 5 / 100, 9 / 10, 5 / 100, 9 / 10, 5 / 100, 9 / 10, 5 / 100, 9 / 10]) = 5"
    by (simp add: blinkStep_def initialInternal_def BLINK_THRESHOLD_def blinkOpenThreshold_def)
qed

theorem C5_blink_state_machine_witness:
  "blinkState initialInternal = Open
   \<and> blinkState (blinkStep initialInternal (5 / 100)) = Closed
   \<and> blinkState (blinkStep (blinkStep initialInternal (5 / 100)) (9 / 10)) = Open
   \<and> blinkState (blinkStep (blinkStep initialInternal (5 / 100)) (2 / 10)) = Closed
   \<and> blinkCount (blinkRun initialInternal [5 / 100, 5 / 100, 2 / 10, 5 / 100, 9 / 10]) = 1
   \<and> closings initialInternal [5 / 100, 5 / 100, 2 / 10, 5 / 100, 9 / 10] = 1"
  using C5_blink_state_machine [of initialInternal "5 / 100" "[5 / 100, 5 / 100, 2 / 10, 5 / 100, 9 / 10]"]
    C5_blink_state_machine [of "blinkStep initialInternal (5 / 100)" "9 / 10" "[]"]
    C5_blink_state_machine [of "blinkStep initialInternal (5 / 100)" "2 / 10" "[]"]
  by (simp add: blinkStep_def initialInternal_def BLINK_THRESHOLD_def blinkOpenThreshold_def)

section \<open>C7: the tracking ratio\<close>

text \<open>
  C7: after any sequence of processed frames the tracking ratio lies between 0 and 100, and
  for a fixed number of frames it does not decrease when the number of valid frames grows.
\<close>

theorem C7_tracking_ratio:
  "0 \<le> trackingRatioNow (frameRun initialInternal frames)
   \<and> trackingRatioNow (frameRun initialInternal frames) \<le> 100
   \<and> (v1 \<le> v2 \<longrightarrow> trackingRatioOf v1 t \<le> trackingRatioOf v2 t)"
proof -
  have "samplesValid (frameRun initialInternal frames) \<le> samplesTotal (frameRun initialInternal frames)"
    by (rule frameRun_valid_le_total) (simp add: initialInternal_def)
  then show ?thesis
    using trackingRatioOf_bounds trackingRatioOf_mono
    by (simp add: trackingRatioNow_def)
qed

theorem C7_tracking_ratio_witness:
  "trackingRatioNow (frameRun initialInternal [True, False, True]) = 6667 / 100
   \<and> 0 \<le> trackingRatioNow (frameRun initialInternal [True, False, True])
   \<and> trackingRatioNow (frameRun initialInternal [True, False, True]) \<le> 100
   \<and> (1::nat) \<le> 2
   \<and> trackingRatioOf 1 3 = 3333 / 100 \<and> trackingRatioOf 2 3 = 6667 / 100
   \<and> trackingRatioOf 1 3 \<le> trackingRatioOf 2 3"
  using C7_tracking_ratio [of "[True, False, True]" 1 2 3]
  by (simp add: trackingRatioNow_def trackingRatioOf_def toFixed_def frameStep_def
      initialInternal_def)

section \<open>Lemmas on the two loops of the aggregator\<close>

lemma segmentOf_lt: "segmentOf k i < 4"
  by (simp add: segmentOf_def)

lemma sum_list_bump:
  "j < length (counts :: nat list) \<Longrightarrow> sum_list (counts[j := Suc (counts ! j)]) = Suc (sum_list counts)"
  by (simp add: sum_list_update)

lemma countInto_length: "length (countInto c k idx xs counts) = length counts"
  by (induction xs arbitrary: idx counts) (simp_all add: Let_def)

lemma countInto_sum:
  "length counts = 4 \<Longrightarrow>
     sum_list (countInto c k idx xs counts) = sum_list counts + length (filter (exhibits c) xs)"
proof (induction xs arbitrary: idx counts)
  case Nil
  show ?case by simp
next
  case (Cons x xs)
  let ?counts' = "if exhibits c x then counts[segmentOf k idx := counts ! segmentOf k idx + 1] else counts"
  have len: "length ?counts' = 4"
    using Cons.prems by simp
  have "sum_list ?counts' = sum_list counts + (if exhibits c x then 1 else 0)"
    using Cons.prems segmentOf_lt [of k idx] by (simp add: sum_list_bump)
  with Cons.IH [OF len, of "idx + 1"] show ?case
    by (simp add: Let_def)
qed

lemma countInto_nth:
  "j < length counts \<Longrightarrow>
     countInto c k idx xs counts ! j =
       counts ! j + length (filter (\<lambda>(i, s). segmentOf k i = j \<and> exhibits c s) (enumerate idx xs))"
proof (induction xs arbitrary: idx counts)
  case Nil
  show ?case by simp
next
  case (Cons x xs)
  let ?counts' = "if exhibits c x then counts[segmentOf k idx := counts ! segmentOf k idx + 1] else counts"
  have len: "j < length ?counts'"
    using Cons.prems by simp
  have "?counts' ! j = counts ! j + (if segmentOf k idx = j \<and> exhibits c x then 1 else 0)"
    using Cons.prems by (auto simp add: nth_list_update)
  with Cons.IH [OF len, of "idx + 1"] show ?case
    by (simp add: Let_def)
qed

lemma segmentSize_covers: "i < length samples \<Longrightarrow> i div segmentSize samples < 4"
proof -
  assume i: "i < length samples"
  have "real (length samples) / 4 \<le> real_of_int \<lceil>real (length samples) / 4\<rceil>"
    by (rule le_of_int_ceiling)
  moreover have "0 \<le> \<lceil>real (length samples) / 4\<rceil>"
    by simp
  ultimately have "real (length samples) / 4 \<le> real (segmentSize samples)"
    by (simp add: segmentSize_def)
  then have "length samples \<le> 4 * segmentSize samples"
    by linarith
  with i have "i < segmentSize samples * 4"
    by simp
  then show ?thesis
    by (simp add: div_less_iff_less_mult) 
qed

lemma segmentSize_div: "segmentSize samples = (length samples + 3) div 4"
proof -
  have "\<lceil>real (length samples) / 4\<rceil> = \<lceil>of_int (int (length samples)) / (of_int 4 :: real)\<rceil>"
    by simp
  also have "\<dots> = - (- int (length samples) div 4)"
    by (rule ceiling_divide_eq_div)
  finally show ?thesis
    unfolding segmentSize_def by linarith
qed

lemma zip_tl_index: "zip xs (tl xs) = map (\<lambda>i. (xs ! (i - 1), xs ! i)) [1..<length xs]"
proof (rule nth_equalityI)
  show "length (zip xs (tl xs)) = length (map (\<lambda>i. (xs ! (i - 1), xs ! i)) [1..<length xs])"
    by simp
next
  fix i
  assume "i < length (zip xs (tl xs))"
  then have i: "i < length xs - 1"
    by simp
  then show "zip xs (tl xs) ! i = map (\<lambda>i. (xs ! (i - 1), xs ! i)) [1..<length xs] ! i"
    by (simp add: nth_tl)
qed

lemma enumerate_index: "enumerate 0 xs = map (\<lambda>i. (i, xs ! i)) [0..<length xs]"
  by (rule nth_equalityI) (simp_all add: nth_enumerate_eq)

lemma segmentCounts_nth:
  assumes "j < 4"
  shows "segmentCounts c samples ! j = length (segmentHits c j samples)"
proof -
  have "segmentCounts c samples ! j =
      length (filter (\<lambda>(i, s). segmentOf (segmentSize samples) i = j \<and> exhibits c s)
                (enumerate 0 samples))"
    using assms by (simp add: segmentCounts_def countInto_nth nth_Cons')
  also have "\<dots> = length (filter (\<lambda>i. segmentOf (segmentSize samples) i = j \<and> exhibits c (samples ! i))
                [0..<length samples])"
    by (simp add: enumerate_index filter_map comp_def)
  also have "filter (\<lambda>i. segmentOf (segmentSize samples) i = j \<and> exhibits c (samples ! i))
                [0..<length samples] = segmentHits c j samples"
    unfolding segmentHits_def
  proof (rule filter_cong [OF refl])
    fix i
    assume "i \<in> set [0..<length samples]"
    then have "i div segmentSize samples < 4"
      by (simp add: segmentSize_covers)
    then show "(segmentOf (segmentSize samples) i = j \<and> exhibits c (samples ! i)) =
        (i div segmentSize samples = j \<and> exhibits c (samples ! i))"
      by (auto simp add: segmentOf_def min_def)
  qed
  finally show ?thesis .
qed

lemma segmentCounts_sum:
  "sum_list (segmentCounts c samples) = length (filter (exhibits c) samples)"
  by (simp add: segmentCounts_def countInto_sum)

lemma list4: "length xs = 4 \<Longrightarrow> xs = [xs ! 0, xs ! 1, xs ! 2, xs ! 3]"
  by (rule nth_equalityI) (auto simp add: nth_Cons' less_Suc_eq numeral_eq_Suc)

lemma segmentCounts_sum4:
  "segmentCounts c samples ! 0 + segmentCounts c samples ! 1 + segmentCounts c samples ! 2
     + segmentCounts c samples ! 3 = length (filter (exhibits c) samples)"
proof -
  have "length (segmentCounts c samples) = 4"
    by (simp add: segmentCounts_def countInto_length)
  then have "sum_list (segmentCounts c samples) =
      sum_list [segmentCounts c samples ! 0, segmentCounts c samples ! 1,
        segmentCounts c samples ! 2, segmentCounts c samples ! 3]"
    using list4 by metis
  then show ?thesis
    by (simp add: segmentCounts_sum)
qed

lemma count_slots:
  assumes "computeAggregatedFeatures samples age gender = Some f"
  shows "map (featureOf f) [''blink_count_1'', ''blink_count_2'', ''blink_count_3'', ''blink_count_4'']
           = map (\<lambda>j. Num (real (segmentCounts Blink samples ! j))) [0, 1, 2, 3]"
    and "map (featureOf f) [''fix_count_1'', ''fix_count_2'', ''fix_count_3'', ''fix_count_4'']
           = map (\<lambda>j. Num (real (segmentCounts Fixation samples ! j))) [0, 1, 2, 3]"
    and "map (featureOf f) [''sac_count_1'', ''sac_count_2'', ''sac_count_3'', ''sac_count_4'']
           = map (\<lambda>j. Num (real (segmentCounts Saccade samples ! j))) [0, 1, 2, 3]"
proof -
  from assms have ne: "samples \<noteq> []"
    by (auto simp add: computeAggregatedFeatures_def)
  from assms have f: "f = the (computeAggregatedFeatures samples age gender)"
    by simp
  show "map (featureOf f) [''blink_count_1'', ''blink_count_2'', ''blink_count_3'', ''blink_count_4'']
           = map (\<lambda>j. Num (real (segmentCounts Blink samples ! j))) [0, 1, 2, 3]"
    unfolding f using ne
    by (simp add: computeAggregatedFeatures_def featureOf_def blinkCounts_def)
  show "map (featureOf f) [''fix_count_1'', ''fix_count_2'', ''fix_count_3'', ''fix_count_4'']
           = map (\<lambda>j. Num (real (segmentCounts Fixation samples ! j))) [0, 1, 2, 3]"
    unfolding f using ne
    by (simp add: computeAggregatedFeatures_def featureOf_def fixCounts_def)
  show "map (featureOf f) [''sac_count_1'', ''sac_count_2'', ''sac_count_3'', ''sac_count_4'']
           = map (\<lambda>j. Num (real (segmentCounts Saccade samples ! j))) [0, 1, 2, 3]"
    unfolding f using ne
    by (simp add: computeAggregatedFeatures_def featureOf_def sacCounts_def)
qed

lemma fixDurations_index:
  "fixDurations samples =
     map (\<lambda>i. dt (samples ! (i - 1)) (samples ! i)) (fixationIndices samples)"
  by (simp add: fixDurations_def fixationSteps_def steps_def fixationIndices_def zip_tl_index
      filter_map comp_def conj_commute)

lemma fix_dur_slot:
  "computeAggregatedFeatures samples age gender = Some f \<Longrightarrow>
     featureOf f ''fix_dur_avg_1'' = Num (fixDurAvg samples)"
  by (cases "samples = []") (auto simp add: computeAggregatedFeatures_def featureOf_def)

section \<open>C6: the segment counts\<close>

text \<open>
  C6: for every window and every category, there are four segment counts; the count of
  segment \<open>j\<close> is the number of positions of the window at which either eye shows the
  category and whose index, divided by the segment size \<open>\<lceil>n / 4\<rceil>\<close>, gives \<open>j\<close>; every
  position falls into one of the four segments; and the four counts add up to the number of
  samples of the window in which either eye shows the category.  The twelve count slots of
  the feature vector hold these counts.
\<close>

theorem C6_segment_counts:
  "length (segmentCounts c samples) = 4
   \<and> segmentSize samples = (length samples + 3) div 4
   \<and> (\<forall>i < length samples. i div segmentSize samples < 4)
   \<and> (\<forall>j < 4. segmentCounts c samples ! j = length (segmentHits c j samples))
   \<and> segmentCounts c samples ! 0 + segmentCounts c samples ! 1 + segmentCounts c samples ! 2
        + segmentCounts c samples ! 3 = length (filter (exhibits c) samples)
   \<and> (samples \<noteq> [] \<longrightarrow>
        (\<exists>f. computeAggregatedFeatures samples age gender = Some f
           \<and> map (featureOf f)
                [''blink_count_1'', ''blink_count_2'', ''blink_count_3'', ''blink_count_4'']
              = map (\<lambda>j. Num (real (segmentCounts Blink samples ! j))) [0, 1, 2, 3]
           \<and> map (featureOf f)
                [''fix_count_1'', ''fix_count_2'', ''fix_count_3'', ''fix_count_4'']
              = map (\<lambda>j. Num (real (segmentCounts Fixation samples ! j))) [0, 1, 2, 3]
           \<and> map (featureOf f)
                [''sac_count_1'', ''sac_count_2'', ''sac_count_3'', ''sac_count_4'']
              = map (\<lambda>j. Num (real (segmentCounts Saccade samples ! j))) [0, 1, 2, 3]))"
proof (intro conjI allI impI)
  show "length (segmentCounts c samples) = 4"
    by (simp add: segmentCounts_def countInto_length)
  show "segmentSize samples = (length samples + 3) div 4"
    by (rule segmentSize_div)
  show "i div segmentSize samples < 4" if "i < length samples" for i
    using that by (rule segmentSize_covers)
  show "segmentCounts c samples ! j = length (segmentHits c j samples)" if "j < 4" for j
    using that by (rule segmentCounts_nth)
  show "segmentCounts c samples ! 0 + segmentCounts c samples ! 1 + segmentCounts c samples ! 2
        + segmentCounts c samples ! 3 = length (filter (exhibits c) samples)"
    by (rule segmentCounts_sum4)
next
  assume "samples \<noteq> []"
  then obtain f where f: "computeAggregatedFeatures samples age gender = Some f"
    using features_Some by blast
  from f count_slots [OF f]
  show "\<exists>f. computeAggregatedFeatures samples age gender = Some f
           \<and> map (featureOf f)
                [''blink_count_1'', ''blink_count_2'', ''blink_count_3'', ''blink_count_4'']
              = map (\<lambda>j. Num (real (segmentCounts Blink samples ! j))) [0, 1, 2, 3]
           \<and> map (featureOf f)
                [''fix_count_1'', ''fix_count_2'', ''fix_count_3'', ''fix_count_4'']
              = map (\<lambda>j. Num (real (segmentCounts Fixation samples ! j))) [0, 1, 2, 3]
           \<and> map (featureOf f)
                [''sac_count_1'', ''sac_count_2'', ''sac_count_3'', ''sac_count_4'']
              = map (\<lambda>j. Num (real (segmentCounts Saccade samples ! j))) [0, 1, 2, 3]"
    by blast
qed

text \<open>
  On the mixed window of five samples the segment size is 2, the fixation counts are
  2, 1, 1, 0, and they add up to the four samples with a fixating eye.
\<close>

theorem C6_segment_counts_witness:
  "segmentSize mixedWindow = 2
   \<and> segmentCounts Fixation mixedWindow = [2, 1, 1, 0]
   \<and> segmentHits Fixation 1 mixedWindow = [2]
   \<and> length (filter (exhibits Fixation) mixedWindow) = 4
   \<and> mixedWindow \<noteq> []
   \<and> (\<exists>f. computeAggregatedFeatures mixedWindow (Some 5) (Some ''F'') = Some f
         \<and> map (featureOf f) [''fix_count_1'', ''fix_count_2'', ''fix_count_3'', ''fix_count_4'']
            = [Num 2, Num 1, Num 1, Num 0])"
proof -
  note c6 = C6_segment_counts [of Fixation mixedWindow "Some 5" "Some ''F''"]
  have size: "segmentSize mixedWindow = 2"
    using c6 by (simp add: mixedWindow_def)
  have counts: "segmentCounts Fixation mixedWindow = [2, 1, 1, 0]"
    by code_simp
  have hits: "segmentHits Fixation 1 mixedWindow = [2]"
    by code_simp
  have total: "length (filter (exhibits Fixation) mixedWindow) = 4"
    using c6 by (simp add: counts)
  have ne: "mixedWindow \<noteq> []"
    by (simp add: mixedWindow_def)
  with c6 obtain f where "computeAggregatedFeatures mixedWindow (Some 5) (Some ''F'') = Some f"
    and "map (featureOf f) [''fix_count_1'', ''fix_count_2'', ''fix_count_3'', ''fix_count_4'']
           = map (\<lambda>j. Num (real (segmentCounts Fixation mixedWindow ! j))) [0, 1, 2, 3]"
    by blast
  then have "\<exists>f. computeAggregatedFeatures mixedWindow (Some 5) (Some ''F'') = Some f
         \<and> map (featureOf f) [''fix_count_1'', ''fix_count_2'', ''fix_count_3'', ''fix_count_4'']
            = [Num 2, Num 1, Num 1, Num 0]"
    by (simp add: counts)
  with size counts hits total ne show ?thesis
    by blast
qed

section \<open>C9: the average fixation duration\<close>

text \<open>
  C9: the average fixation duration is the mean interval over the consecutive pairs of
  samples that both count as fixations, a sample counting as one when either eye shows a
  fixation.  The loop tests the right eye only
  (\<^verbatim>\<open>curr.categoryRight === 'Fixation' && prev.categoryRight === 'Fixation'\<close>), while the
  saccade test of the same loop and the segment counts read either eye.  On two samples
  100 ms apart whose left eye fixates while the right eye is in a saccade, both samples
  count as fixations, and the segment counts count both, but no fixation duration is
  pushed: the slot \<open>fix_dur_avg_1\<close> holds 0 where the mean interval is 0.1 s.
\<close>

theorem C9_fixation_duration_failing_input:
  "exhibits Fixation sampleA \<and> exhibits Fixation sampleB
   \<and> dt sampleA sampleB = 1 / 10
   \<and> spec_fixDurAvg [sampleA, sampleB] = 1 / 10
   \<and> segmentCounts Fixation [sampleA, sampleB] = [1, 1, 0, 0]
   \<and> fixationIndices [sampleA, sampleB] = []
   \<and> featureOf (the (computeAggregatedFeatures [sampleA, sampleB] None None)) ''fix_dur_avg_1''
       = Num 0"
proof -
  have counts: "segmentCounts Fixation [sampleA, sampleB] = [1, 1, 0, 0]"
    by code_simp
  have idx: "fixationIndices [sampleA, sampleB] = []"
    by (simp add: fixationIndices_def sampleA_def sampleB_def)
  have rest: "exhibits Fixation sampleA \<and> exhibits Fixation sampleB
      \<and> dt sampleA sampleB = 1 / 10
      \<and> spec_fixDurAvg [sampleA, sampleB] = 1 / 10"
    by (simp add: spec_fixDurAvg_def averageOrZero_def exhibits_def dt_def sampleA_def
        sampleB_def)
  have "fixDurAvg [sampleA, sampleB] = 0"
    by (simp add: fixDurAvg_def averageOrZero_def fixDurations_index idx)
  then have slot: "featureOf (the (computeAggregatedFeatures [sampleA, sampleB] None None))
      ''fix_dur_avg_1'' = Num 0"
    using fix_dur_slot [of "[sampleA, sampleB]" None None]
    by (simp add: computeAggregatedFeatures_def)
  from counts idx rest slot show ?thesis
    by blast
qed

section \<open>Lemmas on the calibration fit\<close>

lemma variance_spec: "variance ms = real (length ms) * spec_variance ms"
  by (simp add: variance_def Let_def spec_variance_def power2_eq_square)

lemma covariance_spec: "covariance ms ts = real (length ms) * spec_covariance ms ts"
  by (simp add: covariance_def Let_def spec_covariance_def)

lemma ratio_spec:
  "ms \<noteq> [] \<Longrightarrow> covariance ms ts / variance ms = spec_covariance ms ts / spec_variance ms"
  by (simp add: variance_spec covariance_spec)

lemma axis_degenerate:
  "variance ms < 1 / 1000000 \<Longrightarrow>
     computeAxisMapping ms ts = \<lparr>scale = 1, offset = mean ts - mean ms\<rparr>"
  by (simp add: computeAxisMapping_def)

lemma axis_regular:
  "\<not> variance ms < 1 / 1000000 \<Longrightarrow>
     computeAxisMapping ms ts =
       \<lparr>scale = covariance ms ts / variance ms,
        offset = mean ts - covariance ms ts / variance ms * mean ms\<rparr>"
  by (simp add: computeAxisMapping_def Let_def)

lemma mean_replicate: "mean (replicate n v) = v \<or> n = 0"
  by (cases n) (simp_all add: mean_def sum_list_replicate, simp add: field_simps)

lemma variance_replicate: "variance (replicate n v) = 0"
proof (cases n)
  case 0
  then show ?thesis by (simp add: variance_def Let_def)
next
  case (Suc k)
  with mean_replicate [of n v] have "mean (replicate n v) = v"
    by simp
  then show ?thesis
    by (simp add: variance_def Let_def sum_list_replicate map_replicate_const)
qed

lemma zip_map_same: "zip xs (map f xs) = map (\<lambda>x. (x, f x)) xs"
  by (induction xs) simp_all

lemma sum_affine:
  "(\<Sum>m\<leftarrow>ms. a * m + b) = a * sum_list ms + b * real (length ms)" for a b :: real
  by (induction ms) (simp_all add: algebra_simps)

lemma mean_affine:
  assumes "ms \<noteq> []"
  shows "mean (map (\<lambda>m. a * m + b) ms) = a * mean ms + b"
  using assms unfolding mean_def by (simp only: sum_affine length_map) (simp add: field_simps)

lemma covariance_affine:
  assumes "ms \<noteq> []"
  shows "covariance ms (map (\<lambda>m. a * m + b) ms) = a * variance ms"
proof -
  have "(\<Sum>m\<leftarrow>ms. (m - c) * (a * m + b - (a * c + b))) = a * (\<Sum>m\<leftarrow>ms. (m - c) * (m - c))" for c
    by (induction ms) (simp_all add: algebra_simps)
  then show ?thesis
    using assms by (simp add: covariance_def variance_def Let_def zip_map_same mean_affine comp_def)
qed

lemma axis_affine:
  assumes "\<not> variance ms < 1 / 1000000"
  shows "computeAxisMapping ms (map (\<lambda>m. a * m + b) ms) = \<lparr>scale = a, offset = b\<rparr>"
proof -
  from assms have ne: "ms \<noteq> []"
    by (auto simp add: variance_def Let_def)
  from assms have nz: "variance ms \<noteq> 0"
    by auto
  show ?thesis
    using nz by (simp add: axis_regular [OF assms] covariance_affine [OF ne] mean_affine [OF ne])
qed

lemma axis_identity: "computeAxisMapping ms ms = \<lparr>scale = 1, offset = 0\<rparr>"
proof (cases "variance ms < 1 / 1000000")
  case True
  then show ?thesis
    by (simp add: axis_degenerate)
next
  case False
  from axis_affine [OF False, of 1 0] show ?thesis
    by simp
qed

lemma clamp_unit: "0 \<le> v \<Longrightarrow> v \<le> 1 \<Longrightarrow> clamp v 0 1 = v"
  by (simp add: clamp_def)

lemma linear_affine:
  assumes tgt: "\<forall>p \<in> set pairs. px (target p) = sx * px (measured p) + ox
                              \<and> py (target p) = sy * py (measured p) + oy"
    and vx: "\<not> variance (map (\<lambda>p. px (measured p)) pairs) < 1 / 1000000"
    and vy: "\<not> variance (map (\<lambda>p. py (measured p)) pairs) < 1 / 1000000"
  shows "computeLinearMapping pairs = \<lparr>scaleX = sx, offsetX = ox, scaleY = sy, offsetY = oy\<rparr>"
proof -
  from vx have ne: "pairs \<noteq> []"
    by (auto simp add: variance_def Let_def)
  have tx: "map (\<lambda>p. px (target p)) pairs = map (\<lambda>m. sx * m + ox) (map (\<lambda>p. px (measured p)) pairs)"
    using tgt by simp
  have ty: "map (\<lambda>p. py (target p)) pairs = map (\<lambda>m. sy * m + oy) (map (\<lambda>p. py (measured p)) pairs)"
    using tgt by simp
  show ?thesis
    using ne by (simp add: computeLinearMapping_def Let_def tx ty axis_affine [OF vx] axis_affine [OF vy]
        del: map_map)
qed

lemma linear_identity:
  assumes "\<forall>p \<in> set pairs. measured p = target p"
  shows "computeLinearMapping pairs = \<lparr>scaleX = 1, offsetX = 0, scaleY = 1, offsetY = 0\<rparr>"
proof (cases "pairs = []")
  case True
  then show ?thesis
    by (simp add: computeLinearMapping_def defaultCalibrationModel_def)
next
  case False
  have eq: "map (\<lambda>p. px (measured p)) pairs = map (\<lambda>p. px (target p)) pairs"
    "map (\<lambda>p. py (measured p)) pairs = map (\<lambda>p. py (target p)) pairs"
    using assms by simp_all
  show ?thesis
    unfolding computeLinearMapping_def Let_def eq using False by (simp add: axis_identity)
qed

section \<open>C3: the fit of one axis\<close>

text \<open>
  C3, as the specification states it: when the variance of the measured values is below
  \<open>10\<^sup>-\<^sup>6\<close> the fit is the translation with scale 1.  The five measured values
  0, 0, 0, 0, 0.002 have the variance \<open>6.4 \<cdot> 10\<^sup>-\<^sup>7\<close>, but the code compares the sum of
  their squared deviations, \<open>3.2 \<cdot> 10\<^sup>-\<^sup>6\<close>, with the threshold, and fits the scale 187.5.
\<close>

theorem C3_axis_mapping_counterexample:
  "spec_variance [0, 0, 0, 0, 2 / 1000] < 1 / 1000000
   \<and> computeAxisMapping [0, 0, 0, 0, 2 / 1000] [5 / 10, 2 / 10, 8 / 10, 2 / 10, 8 / 10]
       = \<lparr>scale = 375 / 2, offset = 17 / 40\<rparr>"
  by (simp add: spec_variance_def computeAxisMapping_def variance_def covariance_def mean_def
      power2_eq_square)

text \<open>
  C3, amended: the quantity compared with \<open>10\<^sup>-\<^sup>6\<close> is the sum of the squared deviations
  of the measured values from their mean (the number of values times their variance).
  When it is below \<open>10\<^sup>-\<^sup>6\<close>, in particular when all measured values are equal, the fit
  is scale 1 and offset mean(target) - mean(measured); otherwise the scale is the sum of
  the products of the deviations over that sum of squares, which is covariance over
  variance, and the offset is mean(target) - scale \<cdot> mean(measured).
\<close>

theorem C3_axis_mapping:
  "variance ms = (\<Sum>v\<leftarrow>ms. (v - mean ms) ^ 2)
   \<and> variance ms = real (length ms) * spec_variance ms
   \<and> (variance ms < 1 / 1000000 \<longrightarrow>
        computeAxisMapping ms ts = \<lparr>scale = 1, offset = mean ts - mean ms\<rparr>)
   \<and> computeAxisMapping (replicate n v) ts = \<lparr>scale = 1, offset = mean ts - mean (replicate n v)\<rparr>
   \<and> (\<not> variance ms < 1 / 1000000 \<longrightarrow>
        computeAxisMapping ms ts =
          \<lparr>scale = covariance ms ts / variance ms,
           offset = mean ts - covariance ms ts / variance ms * mean ms\<rparr>
        \<and> covariance ms ts / variance ms = spec_covariance ms ts / spec_variance ms)"
proof (intro conjI impI)
  show "variance ms = (\<Sum>v\<leftarrow>ms. (v - mean ms) ^ 2)"
    by (simp add: variance_def Let_def power2_eq_square)
  show "variance ms = real (length ms) * spec_variance ms"
    by (rule variance_spec)
  show "computeAxisMapping (replicate n v) ts = \<lparr>scale = 1, offset = mean ts - mean (replicate n v)\<rparr>"
    by (rule axis_degenerate) (simp add: variance_replicate)
next
  assume "variance ms < 1 / 1000000"
  then show "computeAxisMapping ms ts = \<lparr>scale = 1, offset = mean ts - mean ms\<rparr>"
    by (rule axis_degenerate)
next
  assume reg: "\<not> variance ms < 1 / 1000000"
  then show "computeAxisMapping ms ts =
          \<lparr>scale = covariance ms ts / variance ms,
           offset = mean ts - covariance ms ts / variance ms * mean ms\<rparr>"
    by (rule axis_regular)
  from reg have "ms \<noteq> []"
    by (auto simp add: variance_def Let_def)
  then show "covariance ms ts / variance ms = spec_covariance ms ts / spec_variance ms"
    by (rule ratio_spec)
qed

theorem C3_axis_mapping_witness:
  "variance [2 / 10, 2 / 10, 2 / 10] < 1 / 1000000
   \<and> computeAxisMapping [2 / 10, 2 / 10, 2 / 10] [5 / 10, 2 / 10, 8 / 10]
       = \<lparr>scale = 1, offset = 3 / 10\<rparr>
   \<and> \<not> variance [1 / 10, 2 / 10, 4 / 10] < 1 / 1000000
   \<and> computeAxisMapping [1 / 10, 2 / 10, 4 / 10] [2 / 10, 4 / 10, 8 / 10]
       = \<lparr>scale = 2, offset = 0\<rparr>"
proof -
  have deg: "variance [2 / 10, 2 / 10, 2 / 10] < 1 / 1000000"
    by (simp add: variance_def mean_def)
  have reg: "\<not> variance [1 / 10, 2 / 10, 4 / 10] < 1 / 1000000"
    by (simp add: variance_def mean_def)
  have "computeAxisMapping [2 / 10, 2 / 10, 2 / 10] [5 / 10, 2 / 10, 8 / 10]
       = \<lparr>scale = 1, offset = 3 / 10\<rparr>"
    using C3_axis_mapping [of "[2 / 10, 2 / 10, 2 / 10]" "[5 / 10, 2 / 10, 8 / 10]"] deg
    by (simp add: mean_def)
  moreover have "computeAxisMapping [1 / 10, 2 / 10, 4 / 10] [2 / 10, 4 / 10, 8 / 10]
       = \<lparr>scale = 2, offset = 0\<rparr>"
    using C3_axis_mapping [of "[1 / 10, 2 / 10, 4 / 10]" "[2 / 10, 4 / 10, 8 / 10]"] reg
    by (simp add: mean_def variance_def covariance_def)
  ultimately show ?thesis
    using deg reg by blast
qed

section \<open>C4: the round trip of a fitted model\<close>

text \<open>
  C4, as the specification states it: the fitted model, applied to each measured point,
  gives back its target within a small tolerance.  The fit is a least-squares line per axis
  and leaves a residual when the targets are not an affine image of the measured points:
  with the fifth point measured at x = 0.5 instead of 0.8 the fitted model sends it to
  x = 79/140, more than 0.23 away from its target 0.8.
\<close>

theorem C4_round_trip_counterexample:
  "applyCalibration (Some (computeLinearMapping skewedPairs)) (Some (measured (skewedPairs ! 4)))
     = Some \<lparr>px = 79 / 140, py = 8 / 10\<rparr>
   \<and> target (skewedPairs ! 4) = \<lparr>px = 8 / 10, py = 8 / 10\<rparr>"
  by (simp add: skewedPairs_def calibrationPoints_def computeLinearMapping_def
      computeAxisMapping_def variance_def covariance_def mean_def applyCalibration_def clamp_def)

text \<open>
  C4, amended: when on each axis the targets are one affine function of the measured values,
  the sum of squared deviations of the measured values is at least \<open>10\<^sup>-\<^sup>6\<close> and the
  targets lie in [0, 1], the fitted model is that affine function and, applied to each
  measured point, gives exactly its target; and when every measured point equals its target
  the fitted model is the identity, scale 1 and offset 0 on both axes.
\<close>

theorem C4_round_trip:
  "((\<forall>p \<in> set pairs. px (target p) = sx * px (measured p) + ox
                    \<and> py (target p) = sy * py (measured p) + oy
                    \<and> 0 \<le> px (target p) \<and> px (target p) \<le> 1
                    \<and> 0 \<le> py (target p) \<and> py (target p) \<le> 1)
     \<and> \<not> variance (map (\<lambda>p. px (measured p)) pairs) < 1 / 1000000
     \<and> \<not> variance (map (\<lambda>p. py (measured p)) pairs) < 1 / 1000000
     \<longrightarrow> computeLinearMapping pairs = \<lparr>scaleX = sx, offsetX = ox, scaleY = sy, offsetY = oy\<rparr>
         \<and> (\<forall>p \<in> set pairs.
               applyCalibration (Some (computeLinearMapping pairs)) (Some (measured p))
                 = Some (target p)))
   \<and> ((\<forall>p \<in> set pairs. measured p = target p)
        \<longrightarrow> computeLinearMapping pairs = \<lparr>scaleX = 1, offsetX = 0, scaleY = 1, offsetY = 0\<rparr>)"
proof (intro conjI impI ballI)
  assume a: "(\<forall>p \<in> set pairs. px (target p) = sx * px (measured p) + ox
                    \<and> py (target p) = sy * py (measured p) + oy
                    \<and> 0 \<le> px (target p) \<and> px (target p) \<le> 1
                    \<and> 0 \<le> py (target p) \<and> py (target p) \<le> 1)
     \<and> \<not> variance (map (\<lambda>p. px (measured p)) pairs) < 1 / 1000000
     \<and> \<not> variance (map (\<lambda>p. py (measured p)) pairs) < 1 / 1000000"
  then show m: "computeLinearMapping pairs = \<lparr>scaleX = sx, offsetX = ox, scaleY = sy, offsetY = oy\<rparr>"
    by (intro linear_affine) auto
  fix p
  assume "p \<in> set pairs"
  with a have "px (target p) = sx * px (measured p) + ox" "py (target p) = sy * py (measured p) + oy"
    "0 \<le> px (target p)" "px (target p) \<le> 1" "0 \<le> py (target p)" "py (target p) \<le> 1"
    by auto
  then show "applyCalibration (Some (computeLinearMapping pairs)) (Some (measured p)) = Some (target p)"
    by (simp add: m applyCalibration_def clamp_unit)
next
  assume "\<forall>p \<in> set pairs. measured p = target p"
  then show "computeLinearMapping pairs = \<lparr>scaleX = 1, offsetX = 0, scaleY = 1, offsetY = 0\<rparr>"
    by (rule linear_identity)
qed

text \<open>
  Measured points at half the target's x and at half the target's y plus 0.1 are fitted
  exactly, by scale 2 on both axes and the offsets 0 and -0.2; and on measured points equal
  to the targets the fit is the identity, which sends the raw gaze (0.5, 0.5) to itself.
\<close>

theorem C4_round_trip_witness:
  "list_all (\<lambda>p. px (target p) = 2 * px (measured p) + 0
                 \<and> py (target p) = 2 * py (measured p) + (- 1 / 5)
                 \<and> 0 \<le> px (target p) \<and> px (target p) \<le> 1
                 \<and> 0 \<le> py (target p) \<and> py (target p) \<le> 1) halvedPairs
   \<and> \<not> variance (map (\<lambda>p. px (measured p)) halvedPairs) < 1 / 1000000
   \<and> \<not> variance (map (\<lambda>p. py (measured p)) halvedPairs) < 1 / 1000000
   \<and> computeLinearMapping halvedPairs = \<lparr>scaleX = 2, offsetX = 0, scaleY = 2, offsetY = - 1 / 5\<rparr>
   \<and> list_all (\<lambda>p. applyCalibration (Some (computeLinearMapping halvedPairs)) (Some (measured p))
                   = Some (target p)) halvedPairs
   \<and> list_all (\<lambda>p. measured p = target p) identityPairs
   \<and> computeLinearMapping identityPairs = \<lparr>scaleX = 1, offsetX = 0, scaleY = 1, offsetY = 0\<rparr>
   \<and> applyCalibration (Some (computeLinearMapping identityPairs)) (Some \<lparr>px = 1 / 2, py = 1 / 2\<rparr>)
       = Some \<lparr>px = 1 / 2, py = 1 / 2\<rparr>"
proof -
  have h1: "\<forall>p \<in> set halvedPairs. px (target p) = 2 * px (measured p) + 0
                    \<and> py (target p) = 2 * py (measured p) + (- 1 / 5)
                    \<and> 0 \<le> px (target p) \<and> px (target p) \<le> 1
                    \<and> 0 \<le> py (target p) \<and> py (target p) \<le> 1"
    by (simp add: halvedPairs_def calibrationPoints_def)
  have h2: "\<not> variance (map (\<lambda>p. px (measured p)) halvedPairs) < 1 / 1000000"
    by (simp add: halvedPairs_def calibrationPoints_def variance_def mean_def)
  have h3: "\<not> variance (map (\<lambda>p. py (measured p)) halvedPairs) < 1 / 1000000"
    by (simp add: halvedPairs_def calibrationPoints_def variance_def mean_def)
  have h4: "\<forall>p \<in> set identityPairs. measured p = target p"
    by (simp add: identityPairs_def)
  note c4 = C4_round_trip [of halvedPairs 2 0 2 "- 1 / 5"] C4_round_trip [of identityPairs]
  from c4(1) h1 h2 h3
  have r1: "computeLinearMapping halvedPairs = \<lparr>scaleX = 2, offsetX = 0, scaleY = 2, offsetY = - 1 / 5\<rparr>"
    and r2: "\<forall>p \<in> set halvedPairs.
         applyCalibration (Some (computeLinearMapping halvedPairs)) (Some (measured p))
           = Some (target p)"
    by blast+
  from c4(2) h4
  have r3: "computeLinearMapping identityPairs = \<lparr>scaleX = 1, offsetX = 0, scaleY = 1, offsetY = 0\<rparr>"
    by blast
  have r4: "applyCalibration (Some (computeLinearMapping identityPairs)) (Some \<lparr>px = 1 / 2, py = 1 / 2\<rparr>)
       = Some \<lparr>px = 1 / 2, py = 1 / 2\<rparr>"
    by (simp add: r3 applyCalibration_def clamp_def)
  from h1 h2 h3 h4 r1 r2 r3 r4 show ?thesis
    unfolding list_all_iff by blast
qed

section \<open>Lemmas on the serializer\<close>



lemma natToString_nonempty: "natToString n \<noteq> []"
  by (simp add: natToString.simps [of n])





lemma doubleQuotes_count:
  "length (filter (\<lambda>c. c = CHR 0x22) (doubleQuotes s)) = 2 * length (filter (\<lambda>c. c = CHR 0x22) s)"
  by (induction s) simp_all


section \<open>C8: the cells of the record\<close>




end
